theory Spec2Isabelle
  imports Main "HOL-Library.Word"
begin

section \<open>The embedded blob of \<^verbatim>\<open>src/snapshot/embedded/embedded-data.cc\<close>\<close>

text \<open>
  The model follows the release build of the file: a \<^verbatim>\<open>CHECK\<close>, a \<^verbatim>\<open>CHECK_WITH_MSG\<close>
  and \<^verbatim>\<open>UNREACHABLE\<close> abort the process and are branches returning an \<open>error\<close>;
  a \<^verbatim>\<open>DCHECK\<close> is compiled out, so it is no branch of a function, and the conditions
  of the \<^verbatim>\<open>DCHECK\<close>s are stated and proved as theorems below.

  An \<^verbatim>\<open>Address\<close> is a natural number: every address the file computes lies in, or one
  past the end of, a buffer that was allocated, where pointer arithmetic does not wrap.
  Sizes and offsets are \<^verbatim>\<open>uint32_t\<close> and wrap.
\<close>

subsection \<open>Machine types\<close>

type_synonym Address = nat
type_synonym byte = "8 word"
type_synonym uint32_t = "32 word"
type_synonym size_t = "64 word"

datatype error =
    CHECK_failed "string list" string
  | DCHECK_failed string
  | UNREACHABLE

text \<open>
  \<open>CHECK_failed err msg\<close>: the lines written to \<^verbatim>\<open>stderr\<close> before the abort, and the
  message of the failed check. \<open>DCHECK_failed\<close> stands at the one place where, the
  \<^verbatim>\<open>DCHECK\<close> violated, the release build would go on to read a finished iterator.
\<close>

subsection \<open>Code units\<close>

datatype Kind = CPP | TFC | TFH | TFJ | TFS | BCH | ASM

type_synonym Register = nat

record CallInterfaceDescriptor =
  ContextRegister :: Register
  RegisterParameters :: "Register list"

datatype RelocMode =
    CODE_TARGET
  | RELATIVE_CODE_TARGET
  | EMBEDDED_OBJECT
  | EXTERNAL_REFERENCE
  | INTERNAL_REFERENCE
  | OFF_HEAP_TARGET
  | RUNTIME_ENTRY

text \<open>
  A relocation record of an on-heap \<^verbatim>\<open>Code\<close> object: its mode, the offset of its slot
  from the start of the instructions, and the address its slot encodes
  (\<^verbatim>\<open>rinfo->target_address()\<close>).
\<close>

record RelocInfo =
  rmode :: RelocMode
  pc_offset :: nat
  target_address :: Address

text \<open>
  A \<^verbatim>\<open>Code\<close> object of the isolate's heap. \<open>builtin_name\<close>, \<open>kind\<close> and \<open>descriptor\<close>
  are what \<^verbatim>\<open>Builtins::name\<close>, \<^verbatim>\<open>Builtins::KindOf\<close> and \<^verbatim>\<open>Builtins::CallableFor\<close> give
  for the unit; \<open>isolate_independent\<close> is the answer of
  \<^verbatim>\<open>Code::IsIsolateIndependent(isolate)\<close>; \<open>builtin_index\<close> is \<open>-1\<close> for code that is no
  builtin.
\<close>

record Code =
  builtin_index :: int
  builtin_name :: string
  kind :: Kind
  descriptor :: CallInterfaceDescriptor
  isolate_independent :: bool
  raw_instruction_start :: Address
  instructions :: "byte list"
  relocation_info :: "RelocInfo list"

definition raw_instruction_size :: "Code \<Rightarrow> int" where
  "raw_instruction_size code = int (length (instructions code))"

definition static_cast_uint32 :: "int \<Rightarrow> uint32_t" where
  "static_cast_uint32 n = word_of_int n"

definition IsIsolateIndependent :: "Code \<Rightarrow> bool" where
  "IsIsolateIndependent code = isolate_independent code"

text \<open>
  The isolate: its builtins in index order (\<^verbatim>\<open>Builtins::builtin_count\<close> is their number),
  the other code objects of its heap, and the value of
  \<^verbatim>\<open>HashIsolateForEmbeddedBlob\<close>.
\<close>

record Isolate =
  builtins :: "Code list"
  heap_code :: "Code list"
  isolate_hash :: size_t

definition builtin_count :: "Isolate \<Rightarrow> nat" where
  "builtin_count isolate = length (builtins isolate)"

subsection \<open>Constants and helpers declared outside the file\<close>

text \<open>
  What \<^verbatim>\<open>embedded-data.cc\<close> uses and does not define is a field of \<open>Config\<close>:
  \<^item> \<open>kCodeAlignment\<close>, the code alignment;
  \<^item> \<open>PadAndAlign\<close>, the padded size of an instruction stream (\<^verbatim>\<open>embedded-data.h\<close>);
  \<^item> \<open>RawCodeOffset\<close>, the size of the reserved header of the code region;
  \<^item> \<open>kOffHeapTrampolineRegister\<close>, the register that carries the off-heap target;
  \<^item> \<open>kZapByte\<close>, the trap byte \<^verbatim>\<open>ZapCode\<close> fills the code region with;
  \<^item> \<open>Checksum\<close>, the checksum of two byte ranges (\<^verbatim>\<open>snapshot-utils.h\<close>);
  \<^item> \<open>direct_code_targets\<close>, true on the architectures of the \<^verbatim>\<open>#if\<close> in
    \<^verbatim>\<open>FinalizeEmbeddedCodeTargets\<close> (x64, arm64, arm, mips, ia32, s390);
  \<^item> \<open>encode_target\<close>, the bytes \<^verbatim>\<open>RelocInfo::set_target_address\<close> stores in the slot
    at a given address for a given target.
\<close>

record Config =
  kCodeAlignment :: uint32_t
  PadAndAlign :: "uint32_t \<Rightarrow> uint32_t"
  RawCodeOffset :: uint32_t
  kOffHeapTrampolineRegister :: Register
  kZapByte :: byte
  Checksum :: "byte list \<Rightarrow> byte list \<Rightarrow> size_t"
  direct_code_targets :: bool
  encode_target :: "RelocMode \<Rightarrow> Address \<Rightarrow> Address \<Rightarrow> byte list"

text \<open>
  Modelled from the spec: \<^verbatim>\<open>RoundUp\<close> is declared in \<^verbatim>\<open>src/base/macros.h\<close>, which is
  not among the sources. The spec has sizes "rounded up to the next page-size multiple"
  and running totals "rounded up to a fixed code alignment boundary"; the arithmetic is
  that of \<^verbatim>\<open>uint32_t\<close>.
\<close>

definition RoundUp :: "uint32_t \<Rightarrow> uint32_t \<Rightarrow> uint32_t" where
  "RoundUp x m = ((x + (m - 1)) div m) * m"

text \<open>
  Modelled from the spec: \<^verbatim>\<open>PadAndAlign\<close> is declared in \<^verbatim>\<open>embedded-data.h\<close>, which is
  not among the sources. By the spec (4.1) a unit's padded size is its length rounded up
  to the code alignment. The theorems below hold for every \<open>PadAndAlign\<close> with the
  properties they name; this one is the instance their witnesses use.
\<close>

definition spec_PadAndAlign :: "uint32_t \<Rightarrow> uint32_t \<Rightarrow> uint32_t" where
  "spec_PadAndAlign alignment n = RoundUp n alignment"

subsection \<open>The safety checks\<close>

fun aliases_loop :: "Register \<Rightarrow> Register list \<Rightarrow> bool" where
  "aliases_loop r [] = False"
| "aliases_loop r (reg # regs) = (if reg = r then True else aliases_loop r regs)"

definition BuiltinAliasesOffHeapTrampolineRegister :: "Config \<Rightarrow> Code \<Rightarrow> bool" where
  "BuiltinAliasesOffHeapTrampolineRegister cfg code =
     (case kind code of
        BCH \<Rightarrow> False
      | ASM \<Rightarrow> False
      | _ \<Rightarrow>
          if ContextRegister (descriptor code) = kOffHeapTrampolineRegister cfg then True
          else aliases_loop (kOffHeapTrampolineRegister cfg)
                 (RegisterParameters (descriptor code)))"

subsection \<open>The first loop of \<^verbatim>\<open>EmbeddedData::FromIsolate\<close>\<close>

record Metadata =
  instructions_offset :: uint32_t
  instructions_length :: uint32_t

record LoopState =
  saw_unsafe_builtin :: bool
  raw_code_size :: uint32_t
  metadata :: "Metadata list"
  stderr :: "string list"

definition not_isolate_independent_msg :: "Code \<Rightarrow> string" where
  "not_isolate_independent_msg code = builtin_name code @ '' is not isolate-independent.''"

definition aliases_msg :: "Code \<Rightarrow> string" where
  "aliases_msg code = builtin_name code @ '' aliases the off-heap trampoline register.''"

definition check_isolate_independent :: "Code \<Rightarrow> LoopState \<Rightarrow> LoopState" where
  "check_isolate_independent code s =
     (if \<not> IsIsolateIndependent code
      then s\<lparr>saw_unsafe_builtin := True,
             stderr := stderr s @ [not_isolate_independent_msg code]\<rparr>
      else s)"

definition check_aliases :: "Config \<Rightarrow> Code \<Rightarrow> LoopState \<Rightarrow> LoopState" where
  "check_aliases cfg code s =
     (if BuiltinAliasesOffHeapTrampolineRegister cfg code
      then s\<lparr>saw_unsafe_builtin := True, stderr := stderr s @ [aliases_msg code]\<rparr>
      else s)"

definition layout_step :: "Config \<Rightarrow> nat \<Rightarrow> Code \<Rightarrow> LoopState \<Rightarrow> LoopState" where
  "layout_step cfg i code s =
     (let len = static_cast_uint32 (raw_instruction_size code)
      in s\<lparr>metadata := (metadata s)[i := \<lparr>instructions_offset = raw_code_size s,
                                           instructions_length = len\<rparr>],
            raw_code_size := raw_code_size s + PadAndAlign cfg len\<rparr>)"

definition loop_body :: "Config \<Rightarrow> nat \<Rightarrow> Code \<Rightarrow> LoopState \<Rightarrow> LoopState" where
  "loop_body cfg i code s =
     layout_step cfg i code (check_aliases cfg code (check_isolate_independent code s))"

fun first_loop :: "Config \<Rightarrow> Code list \<Rightarrow> nat \<Rightarrow> LoopState \<Rightarrow> LoopState" where
  "first_loop cfg [] i s = s"
| "first_loop cfg (code # rest) i s = first_loop cfg rest (Suc i) (loop_body cfg i code s)"

definition initial_state :: "nat \<Rightarrow> LoopState" where
  "initial_state kTableSize =
     \<lparr>saw_unsafe_builtin = False, raw_code_size = 0,
      metadata = replicate kTableSize \<lparr>instructions_offset = 0, instructions_length = 0\<rparr>,
      stderr = []\<rparr>"

definition run_first_loop :: "Config \<Rightarrow> Isolate \<Rightarrow> LoopState" where
  "run_first_loop cfg isolate =
     first_loop cfg (builtins isolate) 0 (initial_state (builtin_count isolate))"

definition unsafe_builtin_msg :: string where
  "unsafe_builtin_msg =
     ''One or more builtins marked as isolate-independent either contains '' @
     ''isolate-dependent code or aliases the off-heap trampoline register. '' @
     ''If in doubt, ask jgruber@''"

subsection \<open>The blob\<close>

text \<open>
  \<^verbatim>\<open>EmbeddedData\<close> holds two pointers and two sizes (the members \<^verbatim>\<open>code_\<close>,
  \<^verbatim>\<open>code_size_\<close>, \<^verbatim>\<open>metadata_\<close> and \<^verbatim>\<open>metadata_size_\<close>, here with the prefix \<open>m_\<close>); the
  model keeps the contents of the two buffers beside them. The code buffer is its bytes. The metadata buffer is its three
  fields, in the order of the layout: the hash of the blob at
  \<^verbatim>\<open>EmbeddedBlobHashOffset() == 0\<close>, the hash of the isolate, and the table;
  \<open>metadata_bytes\<close> gives its bytes (in the byte order of the host, taken little-endian),
  for the checksum.
\<close>

record EmbeddedData =
  m_code :: Address
  m_code_size :: uint32_t
  code_bytes :: "byte list"
  m_metadata :: Address
  m_metadata_size :: uint32_t
  embedded_blob_hash :: size_t
  isolate_hash_field :: size_t
  metadata_table :: "Metadata list"

definition kSizetSize :: nat where
  "kSizetSize = 8"

definition EmbeddedBlobHashOffset :: nat where
  "EmbeddedBlobHashOffset = 0"

definition EmbeddedBlobHashSize :: nat where
  "EmbeddedBlobHashSize = kSizetSize"

definition IsolateHashOffset :: nat where
  "IsolateHashOffset = EmbeddedBlobHashOffset + EmbeddedBlobHashSize"

definition IsolateHashSize :: nat where
  "IsolateHashSize = kSizetSize"

definition MetadataTableOffset :: uint32_t where
  "MetadataTableOffset = word_of_nat (IsolateHashOffset + IsolateHashSize)"

definition MetadataTableSize :: "nat \<Rightarrow> uint32_t" where
  "MetadataTableSize kTableSize = word_of_nat (8 * kTableSize)"

fun le_bytes :: "nat \<Rightarrow> nat \<Rightarrow> byte list" where
  "le_bytes 0 v = []"
| "le_bytes (Suc k) v = word_of_nat (v mod 256) # le_bytes k (v div 256)"

definition size_t_bytes :: "size_t \<Rightarrow> byte list" where
  "size_t_bytes h = le_bytes kSizetSize (unat h)"

definition Metadata_bytes :: "Metadata \<Rightarrow> byte list" where
  "Metadata_bytes m =
     le_bytes 4 (unat (instructions_offset m)) @ le_bytes 4 (unat (instructions_length m))"

definition metadata_bytes :: "EmbeddedData \<Rightarrow> byte list" where
  "metadata_bytes d =
     size_t_bytes (embedded_blob_hash d) @ size_t_bytes (isolate_hash_field d) @
     concat (map Metadata_bytes (metadata_table d))"

definition EmbeddedBlobHash :: "EmbeddedData \<Rightarrow> size_t" where
  "EmbeddedBlobHash d = embedded_blob_hash d"

definition RawCode :: "Config \<Rightarrow> EmbeddedData \<Rightarrow> Address" where
  "RawCode cfg d = m_code d + unat (RawCodeOffset cfg)"

text \<open>
  The accessors read the table at index \<open>i\<close>. Outside the table the source reads beyond
  the buffer (undefined behaviour, a \<^verbatim>\<open>DCHECK\<close> in debug builds) and \<open>!\<close> is
  unspecified: every theorem below has the index in the table.
\<close>

definition InstructionStartOfBuiltin :: "Config \<Rightarrow> EmbeddedData \<Rightarrow> int \<Rightarrow> Address" where
  "InstructionStartOfBuiltin cfg d i =
     RawCode cfg d + unat (instructions_offset (metadata_table d ! nat i))"

definition InstructionSizeOfBuiltin :: "EmbeddedData \<Rightarrow> int \<Rightarrow> uint32_t" where
  "InstructionSizeOfBuiltin d i = instructions_length (metadata_table d ! nat i)"

text \<open>
  Modelled from the spec: \<^verbatim>\<open>PaddedInstructionSizeOfBuiltin\<close> is declared in
  \<^verbatim>\<open>embedded-data.h\<close>, which is not among the sources. By the spec (4.5) the "padded
  length includes the unit's trailing alignment gap".
\<close>

definition PaddedInstructionSizeOfBuiltin :: "Config \<Rightarrow> EmbeddedData \<Rightarrow> int \<Rightarrow> uint32_t" where
  "PaddedInstructionSizeOfBuiltin cfg d i = PadAndAlign cfg (InstructionSizeOfBuiltin d i)"

subsection \<open>Writing into a buffer\<close>

text \<open>
  \<^verbatim>\<open>std::memcpy(buf + dst, src, length src)\<close>. A write beyond the buffer is undefined
  behaviour in the source; the model leaves the bytes beyond the buffer out, and the
  theorems show that the writes of \<^verbatim>\<open>FromIsolate\<close> stay inside.
\<close>

definition memcpy :: "byte list \<Rightarrow> nat \<Rightarrow> byte list \<Rightarrow> byte list" where
  "memcpy buf dst src =
     map (\<lambda>k. if dst \<le> k \<and> k < dst + length src then src ! (k - dst) else buf ! k)
       [0..<length buf]"

definition ZapCode :: "Config \<Rightarrow> nat \<Rightarrow> byte list" where
  "ZapCode cfg n = replicate n (kZapByte cfg)"

subsection \<open>The second loop of \<^verbatim>\<open>EmbeddedData::FromIsolate\<close>\<close>

fun copy_loop ::
  "Config \<Rightarrow> Metadata list \<Rightarrow> Code list \<Rightarrow> nat \<Rightarrow> byte list \<Rightarrow> byte list" where
  "copy_loop cfg md [] i blob_code = blob_code"
| "copy_loop cfg md (code # rest) i blob_code =
     copy_loop cfg md rest (Suc i)
       (memcpy blob_code (unat (RawCodeOffset cfg) + unat (instructions_offset (md ! i)))
          (instructions code))"

subsection \<open>\<^verbatim>\<open>FinalizeEmbeddedCodeTargets\<close>\<close>

definition kRelocMask :: "RelocMode \<Rightarrow> bool" where
  "kRelocMask mode = (mode = CODE_TARGET \<or> mode = RELATIVE_CODE_TARGET)"

text \<open>
  Modelled from the spec: \<^verbatim>\<open>RelocIterator\<close> is declared in \<^verbatim>\<open>reloc-info.h\<close>, which is
  not among the sources. By the spec (4.4) there are "two parallel relocation-record
  iterators: one over the unit's original on-heap bytes, one over its copy inside the
  blob, filtered to code-target and relative-code-target record kinds". An iterator is the
  list of the records it will yield. The records of the copy are the records of the unit,
  their slots at the copy's address in the blob.
\<close>

record BlobRelocInfo =
  blob_rmode :: RelocMode
  blob_pc :: Address

definition RelocIterator :: "Code \<Rightarrow> RelocInfo list" where
  "RelocIterator code = filter (\<lambda>r. kRelocMask (rmode r)) (relocation_info code)"

definition RelocIterator_blob :: "Config \<Rightarrow> EmbeddedData \<Rightarrow> Code \<Rightarrow> BlobRelocInfo list" where
  "RelocIterator_blob cfg blob code =
     map (\<lambda>r. \<lparr>blob_rmode = rmode r,
               blob_pc = InstructionStartOfBuiltin cfg blob (builtin_index code) + pc_offset r\<rparr>)
       (filter (\<lambda>r. kRelocMask (rmode r)) (relocation_info code))"

text \<open>
  Modelled from the spec: \<^verbatim>\<open>Code::GetCodeFromTargetAddress\<close> is declared in
  \<^verbatim>\<open>code-inl.h\<close>, which is not among the sources. By the spec (4.4) it "resolve[s] the
  original target to its owning code unit": the code object whose instructions start at
  the address. An address where no code object starts has no owner.
\<close>

definition GetCodeFromTargetAddress :: "Isolate \<Rightarrow> Address \<Rightarrow> Code option" where
  "GetCodeFromTargetAddress isolate a =
     find (\<lambda>c. raw_instruction_start c = a) (builtins isolate @ heap_code isolate)"

definition IsBuiltinId :: "Isolate \<Rightarrow> int \<Rightarrow> bool" where
  "IsBuiltinId isolate i = (0 \<le> i \<and> i < int (builtin_count isolate))"

text \<open>
  \<^verbatim>\<open>Builtins::kAllBuiltinsAreIsolateIndependent\<close> holds (the \<^verbatim>\<open>STATIC_ASSERT\<close> of the
  file), so a code object is an isolate-independent builtin when it is a builtin.
\<close>

definition IsIsolateIndependentBuiltin :: "Isolate \<Rightarrow> Code option \<Rightarrow> bool" where
  "IsIsolateIndependentBuiltin isolate target =
     (case target of None \<Rightarrow> False | Some c \<Rightarrow> IsBuiltinId isolate (builtin_index c))"

datatype WriteBarrierMode = SKIP_WRITE_BARRIER | UPDATE_WRITE_BARRIER

text \<open>
  Modelled from the spec: \<^verbatim>\<open>RelocInfo::set_target_address\<close> is declared in
  \<^verbatim>\<open>reloc-info.h\<close>, which is not among the sources. By the spec (4.4) it "overwrite[s]
  the blob-copy's target address"; the bytes it stores are \<open>encode_target\<close>'s. With the
  blob it returns the slots it handed to the write barrier.
\<close>

definition set_target_address ::
  "Config \<Rightarrow> BlobRelocInfo \<Rightarrow> Address \<Rightarrow> WriteBarrierMode \<Rightarrow> EmbeddedData \<Rightarrow>
   EmbeddedData \<times> Address list" where
  "set_target_address cfg rinfo target mode blob =
     (blob\<lparr>code_bytes :=
        memcpy (code_bytes blob) (blob_pc rinfo - m_code blob)
          (encode_target cfg (blob_rmode rinfo) (blob_pc rinfo) target)\<rparr>,
      case mode of SKIP_WRITE_BARRIER \<Rightarrow> [] | UPDATE_WRITE_BARRIER \<Rightarrow> [blob_pc rinfo])"

text \<open>
  The \<^verbatim>\<open>while\<close> loop over one unit. When the iterator over the copy is done before the
  other (the \<^verbatim>\<open>DCHECK\<close> of line 174), the source reads a finished iterator; the model
  stops there, and the theorems below show that it does not happen.
\<close>

fun targets_loop ::
  "Config \<Rightarrow> Isolate \<Rightarrow> RelocInfo list \<Rightarrow> BlobRelocInfo list \<Rightarrow>
   EmbeddedData \<times> Address list \<Rightarrow> error + EmbeddedData \<times> Address list" where
  "targets_loop cfg isolate [] off_heap_it (blob, barriers) = Inr (blob, barriers)"
| "targets_loop cfg isolate (rinfo # on_heap_it) [] (blob, barriers) =
     Inl (DCHECK_failed ''!off_heap_it.done()'')"
| "targets_loop cfg isolate (rinfo # on_heap_it) (off_rinfo # off_heap_it) (blob, barriers) =
     (let target = GetCodeFromTargetAddress isolate (target_address rinfo)
      in if \<not> IsIsolateIndependentBuiltin isolate target
         then Inl (CHECK_failed [] ''Builtins::IsIsolateIndependentBuiltin(target)'')
         else
           (let (blob', bs) =
                  set_target_address cfg off_rinfo
                    (InstructionStartOfBuiltin cfg blob (builtin_index (the target)))
                    SKIP_WRITE_BARRIER blob
            in targets_loop cfg isolate on_heap_it off_heap_it (blob', barriers @ bs)))"

fun finalize_loop ::
  "Config \<Rightarrow> Isolate \<Rightarrow> Code list \<Rightarrow> EmbeddedData \<times> Address list \<Rightarrow>
   error + EmbeddedData \<times> Address list" where
  "finalize_loop cfg isolate [] st = Inr st"
| "finalize_loop cfg isolate (code # rest) st =
     (let on_heap_it = RelocIterator code;
          off_heap_it = RelocIterator_blob cfg (fst st) code
      in if direct_code_targets cfg
         then (case targets_loop cfg isolate on_heap_it off_heap_it st of
                 Inl e \<Rightarrow> Inl e
               | Inr st' \<Rightarrow> finalize_loop cfg isolate rest st')
         else if on_heap_it \<noteq> [] then Inl (CHECK_failed [] ''on_heap_it.done()'')
         else if off_heap_it \<noteq> [] then Inl (CHECK_failed [] ''off_heap_it.done()'')
         else finalize_loop cfg isolate rest st)"

definition FinalizeEmbeddedCodeTargets ::
  "Config \<Rightarrow> Isolate \<Rightarrow> EmbeddedData \<Rightarrow> error + EmbeddedData \<times> Address list" where
  "FinalizeEmbeddedCodeTargets cfg isolate blob =
     finalize_loop cfg isolate (builtins isolate) (blob, [])"

subsection \<open>The hash of the blob\<close>

definition CreateEmbeddedBlobHash :: "Config \<Rightarrow> EmbeddedData \<Rightarrow> size_t" where
  "CreateEmbeddedBlobHash cfg d =
     (let payload1 = take (unat (m_metadata_size d) - EmbeddedBlobHashSize)
                       (drop EmbeddedBlobHashSize (metadata_bytes d));
          payload2 = take (unat (m_code_size d)) (code_bytes d)
      in Checksum cfg payload1 payload2)"

subsection \<open>\<^verbatim>\<open>EmbeddedData::FromIsolate\<close>\<close>

text \<open>
  What the two \<^verbatim>\<open>new uint8_t[]\<close> give: the addresses of the buffers, and the content of
  the fresh metadata buffer's hash field, which is indeterminate. Every other byte of the
  two buffers is written before it is read.
\<close>

record NewArrays =
  blob_code :: Address
  blob_metadata :: Address
  fresh_hash_field :: size_t

definition FromIsolate :: "Config \<Rightarrow> Isolate \<Rightarrow> NewArrays \<Rightarrow> error + EmbeddedData" where
  "FromIsolate cfg isolate new =
     (let s = run_first_loop cfg isolate
      in if saw_unsafe_builtin s then Inl (CHECK_failed (stderr s) unsafe_builtin_msg)
         else
           (let blob_code_size = RawCodeOffset cfg + raw_code_size s;
                blob_metadata_size =
                  MetadataTableOffset + MetadataTableSize (builtin_count isolate);
                zapped = ZapCode cfg (unat blob_code_size);
                d = \<lparr>m_code = blob_code new,
                     m_code_size = blob_code_size,
                     code_bytes = copy_loop cfg (metadata s) (builtins isolate) 0 zapped,
                     m_metadata = blob_metadata new,
                     m_metadata_size = blob_metadata_size,
                     embedded_blob_hash = fresh_hash_field new,
                     isolate_hash_field = isolate_hash isolate,
                     metadata_table = metadata s\<rparr>
            in case FinalizeEmbeddedCodeTargets cfg isolate d of
                 Inl e \<Rightarrow> Inl e
               | Inr (d', barriers) \<Rightarrow>
                   Inr (d'\<lparr>embedded_blob_hash := CreateEmbeddedBlobHash cfg d'\<rparr>)))"

subsection \<open>\<^verbatim>\<open>InstructionStream::TryLookupCode\<close>\<close>

text \<open>
  The blob is the isolate's embedded blob, which \<^verbatim>\<open>EmbeddedData::FromBlob()\<close> reads too.
  The result is \<open>None\<close> for the empty \<^verbatim>\<open>Code()\<close> and \<open>Some mid\<close> for
  \<^verbatim>\<open>isolate->builtins()->builtin(mid)\<close>. \<open>l\<close>, \<open>r\<close> and \<open>mid\<close> are \<^verbatim>\<open>int\<close>s between 0 and
  \<^verbatim>\<open>Builtins::builtin_count\<close>, a constant far below \<open>2^30\<close>, so \<open>l + r\<close> does not overflow.
\<close>

definition PcIsOffHeap :: "EmbeddedData \<Rightarrow> Address \<Rightarrow> bool" where
  "PcIsOffHeap d pc = (m_code d \<le> pc \<and> pc < m_code d + unat (m_code_size d))"

function lookup_loop ::
  "Config \<Rightarrow> EmbeddedData \<Rightarrow> Address \<Rightarrow> nat \<Rightarrow> nat \<Rightarrow> error + nat option" where
  "lookup_loop cfg d address l r =
     (if l < r then
        (let mid = (l + r) div 2;
             start = InstructionStartOfBuiltin cfg d (int mid);
             end = start + unat (PaddedInstructionSizeOfBuiltin cfg d (int mid))
         in if address < start then lookup_loop cfg d address l mid
            else if address \<ge> end then lookup_loop cfg d address (mid + 1) r
            else Inr (Some mid))
      else Inl UNREACHABLE)"
  by pat_completeness auto
termination
  by (relation "measure (\<lambda>(cfg, d, address, l, r). r - l)") auto

declare lookup_loop.simps [simp del]

definition TryLookupCode :: "Config \<Rightarrow> EmbeddedData \<Rightarrow> Address \<Rightarrow> error + nat option" where
  "TryLookupCode cfg d address =
     (if \<not> PcIsOffHeap d address then Inr None
      else if address < InstructionStartOfBuiltin cfg d 0 then Inr None
      else lookup_loop cfg d address 0 (length (metadata_table d)))"

subsection \<open>The layout in closed form\<close>

text \<open>
  The table the first loop writes, as a function of the units and of the offset it starts
  from, and the sum of the padded sizes without wrap-around. They state the theorems; the
  loop is \<open>first_loop\<close>.
\<close>

definition padded_length :: "Config \<Rightarrow> Code \<Rightarrow> uint32_t" where
  "padded_length cfg code = PadAndAlign cfg (static_cast_uint32 (raw_instruction_size code))"

fun entries_from :: "Config \<Rightarrow> uint32_t \<Rightarrow> Code list \<Rightarrow> Metadata list" where
  "entries_from cfg off [] = []"
| "entries_from cfg off (code # rest) =
     \<lparr>instructions_offset = off,
      instructions_length = static_cast_uint32 (raw_instruction_size code)\<rparr> #
     entries_from cfg (off + padded_length cfg code) rest"

definition padded_total :: "Config \<Rightarrow> Code list \<Rightarrow> nat" where
  "padded_total cfg cs = sum_list (map (\<lambda>c. unat (padded_length cfg c)) cs)"

subsection \<open>The scenario of the specification\<close>

text \<open>
  Three units of 10, 37 and 4 bytes, code alignment 16, no header.
\<close>

definition scenario_code :: "int \<Rightarrow> nat \<Rightarrow> Code" where
  "scenario_code i n =
     \<lparr>builtin_index = i, builtin_name = ''unit'', kind = TFJ,
      descriptor = \<lparr>ContextRegister = 1, RegisterParameters = [2, 3]\<rparr>,
      isolate_independent = True, raw_instruction_start = 100 * nat (i + 1),
      instructions = replicate n 0x90, relocation_info = []\<rparr>"

definition scenario_cfg :: Config where
  "scenario_cfg =
     \<lparr>kCodeAlignment = 16, PadAndAlign = spec_PadAndAlign 16, RawCodeOffset = 0,
      kOffHeapTrampolineRegister = 7, kZapByte = 0xCC,
      Checksum = (\<lambda>p1 p2. word_of_nat (length p1 + length p2)),
      direct_code_targets = True, encode_target = (\<lambda>mode pc target. le_bytes 4 target)\<rparr>"

definition scenario_isolate :: Isolate where
  "scenario_isolate =
     \<lparr>builtins = [scenario_code 0 10, scenario_code 1 37, scenario_code 2 4],
      heap_code = [], isolate_hash = 5\<rparr>"

subsection \<open>Blobs that differ in the bytes of the code buffer only\<close>

definition same_frame :: "EmbeddedData \<Rightarrow> EmbeddedData \<Rightarrow> bool" where
  "same_frame blob blob' \<longleftrightarrow>
     blob' = blob\<lparr>code_bytes := code_bytes blob'\<rparr> \<and>
     length (code_bytes blob') = length (code_bytes blob)"

subsection \<open>Ranges of the units in the code region\<close>

definition code_region_end :: "EmbeddedData \<Rightarrow> Address" where
  "code_region_end d = m_code d + unat (m_code_size d)"

definition range_end :: "Config \<Rightarrow> EmbeddedData \<Rightarrow> nat \<Rightarrow> Address" where
  "range_end cfg d i =
     InstructionStartOfBuiltin cfg d (int i) + unat (PaddedInstructionSizeOfBuiltin cfg d (int i))"

text \<open>
  The scenario's buffers, and the resolver run on the blob built for the scenario, at an
  offset from the start of unit 0.
\<close>

definition scenario_new :: NewArrays where
  "scenario_new = \<lparr>blob_code = 64, blob_metadata = 192, fresh_hash_field = 0\<rparr>"

definition scenario_blob :: EmbeddedData where
  "scenario_blob =
     \<lparr>m_code = 64, m_code_size = 80,
      code_bytes = replicate 10 0x90 @ replicate 6 0xCC @ replicate 37 0x90 @
                   replicate 11 0xCC @ replicate 4 0x90 @ replicate 12 0xCC,
      m_metadata = 192, m_metadata_size = 40,
      embedded_blob_hash = 112, isolate_hash_field = 5,
      metadata_table =
        [\<lparr>instructions_offset = 0, instructions_length = 10\<rparr>,
         \<lparr>instructions_offset = 16, instructions_length = 37\<rparr>,
         \<lparr>instructions_offset = 64, instructions_length = 4\<rparr>]\<rparr>"

definition resolve_in_built :: "Config \<Rightarrow> Isolate \<Rightarrow> NewArrays \<Rightarrow> nat \<Rightarrow> error + nat option" where
  "resolve_in_built cfg isolate new offset =
     (case FromIsolate cfg isolate new of
        Inl e \<Rightarrow> Inl e
      | Inr d \<Rightarrow> TryLookupCode cfg d (InstructionStartOfBuiltin cfg d 0 + offset))"

subsection \<open>The violations of a unit\<close>

text \<open>
  The lines the two checks of the first loop write for one unit, in the order of the
  checks.
\<close>

definition violations :: "Config \<Rightarrow> Code \<Rightarrow> string list" where
  "violations cfg code =
     (if \<not> IsIsolateIndependent code then [not_isolate_independent_msg code] else []) @
     (if BuiltinAliasesOffHeapTrampolineRegister cfg code then [aliases_msg code] else [])"

text \<open>
  Four units for the safety checks, with the trampoline register 7 of \<open>scenario_cfg\<close>:
  \<open>Safe\<close> passes both checks; \<open>Dependent\<close> is not isolate-independent; \<open>Aliasing\<close> takes
  its second parameter in register 7; \<open>Handler\<close> is a bytecode handler that is not
  isolate-independent and whose descriptor has register 7 as its context register.
\<close>

definition safety_code :: "int \<Rightarrow> string \<Rightarrow> Kind \<Rightarrow> bool \<Rightarrow> Register \<Rightarrow> Register list \<Rightarrow> Code" where
  "safety_code i name k indep ctx params =
     \<lparr>builtin_index = i, builtin_name = name, kind = k,
      descriptor = \<lparr>ContextRegister = ctx, RegisterParameters = params\<rparr>,
      isolate_independent = indep, raw_instruction_start = 100 * nat (i + 1),
      instructions = replicate 4 0x90, relocation_info = []\<rparr>"

definition safety_isolate :: Isolate where
  "safety_isolate =
     \<lparr>builtins = [safety_code 0 ''Safe'' TFJ True 1 [2, 3],
                  safety_code 1 ''Dependent'' CPP False 1 [2],
                  safety_code 2 ''Aliasing'' TFS True 1 [2, 7]],
      heap_code = [], isolate_hash = 5\<rparr>"

definition handler_isolate :: Isolate where
  "handler_isolate =
     \<lparr>builtins = [safety_code 0 ''Handler'' BCH False 7 [7]],
      heap_code = [], isolate_hash = 5\<rparr>"

subsection \<open>The fix-ups in closed form\<close>

text \<open>
  The record of the blob copy that goes with a record of a unit; the write
  \<^verbatim>\<open>FinalizeEmbeddedCodeTargets\<close> makes for a record (the record of the copy and the new
  target); the writes for a unit and for all units, in the order of the loops; and a list
  of writes applied to a blob.
\<close>

definition blob_rinfo :: "Config \<Rightarrow> EmbeddedData \<Rightarrow> Code \<Rightarrow> RelocInfo \<Rightarrow> BlobRelocInfo" where
  "blob_rinfo cfg blob code r =
     \<lparr>blob_rmode = rmode r,
      blob_pc = InstructionStartOfBuiltin cfg blob (builtin_index code) + pc_offset r\<rparr>"

definition target_ok :: "Isolate \<Rightarrow> RelocInfo \<Rightarrow> bool" where
  "target_ok isolate r =
     IsIsolateIndependentBuiltin isolate (GetCodeFromTargetAddress isolate (target_address r))"

definition fixup_of ::
  "Config \<Rightarrow> Isolate \<Rightarrow> EmbeddedData \<Rightarrow> Code \<Rightarrow> RelocInfo \<Rightarrow> BlobRelocInfo \<times> Address" where
  "fixup_of cfg isolate blob code r =
     (blob_rinfo cfg blob code r,
      InstructionStartOfBuiltin cfg blob
        (builtin_index (the (GetCodeFromTargetAddress isolate (target_address r)))))"

definition unit_fixups ::
  "Config \<Rightarrow> Isolate \<Rightarrow> EmbeddedData \<Rightarrow> Code \<Rightarrow> (BlobRelocInfo \<times> Address) list" where
  "unit_fixups cfg isolate blob code = map (fixup_of cfg isolate blob code) (RelocIterator code)"

definition all_fixups ::
  "Config \<Rightarrow> Isolate \<Rightarrow> EmbeddedData \<Rightarrow> (BlobRelocInfo \<times> Address) list" where
  "all_fixups cfg isolate blob = concat (map (unit_fixups cfg isolate blob) (builtins isolate))"

definition apply_fixups ::
  "Config \<Rightarrow> EmbeddedData \<Rightarrow> (BlobRelocInfo \<times> Address) list \<Rightarrow> EmbeddedData" where
  "apply_fixups cfg blob fixups =
     foldl (\<lambda>b (rinfo, target). fst (set_target_address cfg rinfo target SKIP_WRITE_BARRIER b))
       blob fixups"

subsection \<open>The bytes the fix-ups write\<close>

text \<open>
  The writes of a list of fix-ups as positions in the code buffer and bytes, and the byte
  the latest of a list of writes leaves at a position, if one reaches it.
\<close>

definition write_of :: "Config \<Rightarrow> Address \<Rightarrow> BlobRelocInfo \<times> Address \<Rightarrow> nat \<times> byte list" where
  "write_of cfg base f =
     (blob_pc (fst f) - base, encode_target cfg (blob_rmode (fst f)) (blob_pc (fst f)) (snd f))"

fun latest :: "(nat \<times> byte list) list \<Rightarrow> nat \<Rightarrow> byte option" where
  "latest [] k = None"
| "latest ((dst, src) # ws) k =
     (case latest ws k of
        Some v \<Rightarrow> Some v
      | None \<Rightarrow> if dst \<le> k \<and> k < dst + length src then Some (src ! (k - dst)) else None)"

text \<open>
  Two units that call each other, for the relocation fix-up: \<open>Caller\<close> (8 bytes, on the
  heap at 100) has a code target at offset 2 that points to \<open>Callee\<close>, and an embedded
  object at offset 0; \<open>Callee\<close> (4 bytes, at 200) has a relative code target at offset 0
  that points to \<open>Caller\<close>. With \<open>scenario_cfg\<close> a target is stored as four little-endian
  bytes.
\<close>

definition reloc_isolate :: Isolate where
  "reloc_isolate =
     \<lparr>builtins =
        [\<lparr>builtin_index = 0, builtin_name = ''Caller'', kind = TFJ,
          descriptor = \<lparr>ContextRegister = 1, RegisterParameters = [2, 3]\<rparr>,
          isolate_independent = True, raw_instruction_start = 100,
          instructions = replicate 8 0x90,
          relocation_info =
            [\<lparr>rmode = EMBEDDED_OBJECT, pc_offset = 0, target_address = 555\<rparr>,
             \<lparr>rmode = CODE_TARGET, pc_offset = 2, target_address = 200\<rparr>]\<rparr>,
         \<lparr>builtin_index = 1, builtin_name = ''Callee'', kind = TFS,
          descriptor = \<lparr>ContextRegister = 1, RegisterParameters = [2]\<rparr>,
          isolate_independent = True, raw_instruction_start = 200,
          instructions = replicate 4 0x90,
          relocation_info =
            [\<lparr>rmode = RELATIVE_CODE_TARGET, pc_offset = 0, target_address = 100\<rparr>]\<rparr>],
      heap_code = [], isolate_hash = 5\<rparr>"

definition reloc_blob_copied :: EmbeddedData where
  "reloc_blob_copied =
     \<lparr>m_code = 64, m_code_size = 32,
      code_bytes = replicate 8 0x90 @ replicate 8 0xCC @ replicate 4 0x90 @ replicate 12 0xCC,
      m_metadata = 192, m_metadata_size = 32,
      embedded_blob_hash = 0, isolate_hash_field = 5,
      metadata_table =
        [\<lparr>instructions_offset = 0, instructions_length = 8\<rparr>,
         \<lparr>instructions_offset = 16, instructions_length = 4\<rparr>]\<rparr>"

definition reloc_blob_fixed :: EmbeddedData where
  "reloc_blob_fixed =
     reloc_blob_copied
       \<lparr>code_bytes := [0x90, 0x90, 0x50, 0, 0, 0, 0x90, 0x90] @ replicate 8 0xCC @
                       [0x40, 0, 0, 0] @ replicate 12 0xCC\<rparr>"

subsection \<open>The page allocator and the heap of arrays\<close>

text \<open>
  Modelled from the spec: the page allocator (\<^verbatim>\<open>AllocatePages\<close>, \<^verbatim>\<open>SetPermissions\<close>,
  \<^verbatim>\<open>FreePages\<close>, \<^verbatim>\<open>AlignedAddress\<close>) is declared in \<^verbatim>\<open>allocation.h\<close>, which is not among
  the sources. By the spec (6) it offers
  "reserve_and_commit(hint_addr, size, alignment, initial_protection) -> ptr | fail",
  "set_protection(ptr, size, protection) -> ok | fail" and
  "release(ptr, size) -> ok | fail". The world holds the mapped regions by their base
  address, and the arrays that \<^verbatim>\<open>new[]\<close> has given and \<^verbatim>\<open>delete[]\<close> has not taken back.
  A region is reserved at the hint when the hint is a non-null multiple of the alignment
  and the range is free, and not at all otherwise; its pages are zero. Protection is set
  on, and a release is of, a whole region of the size given. The platform may refuse any
  request: \<open>grants_allocation\<close>, \<open>grants_protection\<close> and \<open>grants_release\<close> say which ones
  it serves. It also gives the page size (as the \<^verbatim>\<open>uint32_t\<close> it is cast to) and, with the
  heap, the address \<^verbatim>\<open>GetRandomMmapAddr\<close> gives at its first and at its second call.
\<close>

datatype Permission = kNoAccess | kRead | kReadWrite | kReadExecute

record Region =
  region_size :: nat
  region_access :: Permission
  region_bytes :: "byte list"

record Platform =
  AllocatePageSize :: uint32_t
  GetRandomMmapAddr :: "nat \<Rightarrow> Address"
  grants_allocation :: "Address \<Rightarrow> bool"
  grants_protection :: "Address \<Rightarrow> Permission \<Rightarrow> bool"
  grants_release :: "Address \<Rightarrow> bool"

record World =
  arrays :: "Address set"
  pages :: "(Address \<times> Region) list"

definition overlaps :: "Address \<Rightarrow> nat \<Rightarrow> Address \<times> Region \<Rightarrow> bool" where
  "overlaps p n qr = (p = fst qr \<or> (p < fst qr + region_size (snd qr) \<and> fst qr < p + n))"

definition AlignedAddress :: "Address \<Rightarrow> nat \<Rightarrow> Address" where
  "AlignedAddress address alignment = (address div alignment) * alignment"

definition AllocatePages ::
  "Platform \<Rightarrow> World \<Rightarrow> Address \<Rightarrow> nat \<Rightarrow> nat \<Rightarrow> Permission \<Rightarrow>
   Address option \<times> World" where
  "AllocatePages platform w hint n alignment access =
     (if \<not> grants_allocation platform hint \<or>
         hint = 0 \<or> n = 0 \<or> alignment = 0 \<or> hint mod alignment \<noteq> 0 \<or>
         list_ex (overlaps hint n) (pages w)
      then (None, w)
      else (Some hint,
            w\<lparr>pages := (hint, \<lparr>region_size = n, region_access = access,
                                region_bytes = replicate n 0\<rparr>) # pages w\<rparr>))"

definition update_region :: "Address \<Rightarrow> (Region \<Rightarrow> Region) \<Rightarrow> World \<Rightarrow> World" where
  "update_region p f w =
     w\<lparr>pages := map (\<lambda>(q, r). if q = p then (q, f r) else (q, r)) (pages w)\<rparr>"

definition SetPermissions ::
  "Platform \<Rightarrow> World \<Rightarrow> Address \<Rightarrow> nat \<Rightarrow> Permission \<Rightarrow> World option" where
  "SetPermissions platform w p n access =
     (case map_of (pages w) p of
        None \<Rightarrow> None
      | Some r \<Rightarrow>
          if grants_protection platform p access \<and> region_size r = n
          then Some (update_region p (\<lambda>r. r\<lparr>region_access := access\<rparr>) w)
          else None)"

definition FreePages :: "Platform \<Rightarrow> World \<Rightarrow> Address \<Rightarrow> nat \<Rightarrow> World option" where
  "FreePages platform w p n =
     (case map_of (pages w) p of
        None \<Rightarrow> None
      | Some r \<Rightarrow>
          if grants_release platform p \<and> region_size r = n
          then Some (w\<lparr>pages := filter (\<lambda>qr. fst qr \<noteq> p) (pages w)\<rparr>)
          else None)"

text \<open>\<^verbatim>\<open>std::memcpy(p, src, length src)\<close> into the region at \<open>p\<close>.\<close>

definition memcpy_pages :: "World \<Rightarrow> Address \<Rightarrow> byte list \<Rightarrow> World" where
  "memcpy_pages w p src =
     update_region p (\<lambda>r. r\<lparr>region_bytes := memcpy (region_bytes r) 0 src\<rparr>) w"

text \<open>
  Modelled from the spec: \<^verbatim>\<open>EmbeddedData::Dispose\<close> is declared in \<^verbatim>\<open>embedded-data.h\<close>,
  which is not among the sources. The build-time buffers are "explicitly disposed" (3):
  it gives the two arrays of the blob back.
\<close>

definition Dispose :: "EmbeddedData \<Rightarrow> World \<Rightarrow> World" where
  "Dispose d w = w\<lparr>arrays := arrays w - {m_code d, m_metadata d}\<rparr>"

subsection \<open>\<^verbatim>\<open>InstructionStream::CreateOffHeapInstructionStream\<close>\<close>

text \<open>The four out-parameters are a record.\<close>

record OffHeapInstructionStream =
  out_code :: Address
  out_code_size :: uint32_t
  out_metadata :: Address
  out_metadata_size :: uint32_t

text \<open>
  \<^verbatim>\<open>FromIsolate\<close> takes its two buffers with \<^verbatim>\<open>new[]\<close> (lines 243 and 247): they are live
  in the world from there on.
\<close>

definition CreateOffHeapInstructionStream ::
  "Config \<Rightarrow> Platform \<Rightarrow> Isolate \<Rightarrow> NewArrays \<Rightarrow> World \<Rightarrow>
   error + OffHeapInstructionStream \<times> World" where
  "CreateOffHeapInstructionStream cfg platform isolate new w =
     (case FromIsolate cfg isolate new of
        Inl e \<Rightarrow> Inl e
      | Inr d \<Rightarrow>
          (let w0 = w\<lparr>arrays := arrays w \<union> {m_code d, m_metadata d}\<rparr>;
               alignment = AllocatePageSize platform;
               requested_allocation_code_address =
                 AlignedAddress (GetRandomMmapAddr platform 0) (unat alignment);
               allocation_code_size = RoundUp (m_code_size d) alignment;
               (allocated_code_bytes, w1) =
                 AllocatePages platform w0 requested_allocation_code_address
                   (unat allocation_code_size) (unat alignment) kReadWrite
           in case allocated_code_bytes of
                None \<Rightarrow> Inl (CHECK_failed [] ''(allocated_code_bytes) != nullptr'')
              | Some code_ptr \<Rightarrow>
                  (let requested_allocation_metadata_address =
                         AlignedAddress (GetRandomMmapAddr platform 1) (unat alignment);
                       allocation_metadata_size = RoundUp (m_metadata_size d) alignment;
                       (allocated_metadata_bytes, w2) =
                         AllocatePages platform w1 requested_allocation_metadata_address
                           (unat allocation_metadata_size) (unat alignment) kReadWrite
                   in case allocated_metadata_bytes of
                        None \<Rightarrow> Inl (CHECK_failed [] ''(allocated_metadata_bytes) != nullptr'')
                      | Some metadata_ptr \<Rightarrow>
                          (let w3 = memcpy_pages w2 code_ptr
                                      (take (unat (m_code_size d)) (code_bytes d))
                           in case SetPermissions platform w3 code_ptr
                                     (unat allocation_code_size) kReadExecute of
                                None \<Rightarrow> Inl (CHECK_failed [] ''SetPermissions(code)'')
                              | Some w4 \<Rightarrow>
                                  (let w5 = memcpy_pages w4 metadata_ptr
                                              (take (unat (m_metadata_size d))
                                                 (metadata_bytes d))
                                   in case SetPermissions platform w5 metadata_ptr
                                             (unat allocation_metadata_size) kRead of
                                        None \<Rightarrow>
                                          Inl (CHECK_failed [] ''SetPermissions(metadata)'')
                                      | Some w6 \<Rightarrow>
                                          Inr (\<lparr>out_code = code_ptr,
                                                out_code_size = m_code_size d,
                                                out_metadata = metadata_ptr,
                                                out_metadata_size = m_metadata_size d\<rparr>,
                                               Dispose d w6))))))"

subsection \<open>\<^verbatim>\<open>InstructionStream::FreeOffHeapInstructionStream\<close>\<close>

definition FreeOffHeapInstructionStream ::
  "Platform \<Rightarrow> Address \<Rightarrow> uint32_t \<Rightarrow> Address \<Rightarrow> uint32_t \<Rightarrow> World \<Rightarrow> error + World" where
  "FreeOffHeapInstructionStream platform code_ptr code_size metadata_ptr metadata_size w =
     (let page_size = AllocatePageSize platform
      in case FreePages platform w code_ptr (unat (RoundUp code_size page_size)) of
           None \<Rightarrow> Inl (CHECK_failed [] ''FreePages(code)'')
         | Some w1 \<Rightarrow>
             (case FreePages platform w1 metadata_ptr
                     (unat (RoundUp metadata_size page_size)) of
                None \<Rightarrow> Inl (CHECK_failed [] ''FreePages(metadata)'')
              | Some w2 \<Rightarrow> Inr w2))"

subsection \<open>The regions of an instantiated blob\<close>

text \<open>
  Where \<^verbatim>\<open>CreateOffHeapInstructionStream\<close> asks for the two regions, and the regions it
  leaves there for a blob: their sizes, their protection and their bytes.
\<close>

definition code_pages_address :: "Platform \<Rightarrow> Address" where
  "code_pages_address platform =
     AlignedAddress (GetRandomMmapAddr platform 0) (unat (AllocatePageSize platform))"

definition metadata_pages_address :: "Platform \<Rightarrow> Address" where
  "metadata_pages_address platform =
     AlignedAddress (GetRandomMmapAddr platform 1) (unat (AllocatePageSize platform))"

definition code_region :: "Platform \<Rightarrow> EmbeddedData \<Rightarrow> Region" where
  "code_region platform d =
     \<lparr>region_size = unat (RoundUp (m_code_size d) (AllocatePageSize platform)),
      region_access = kReadExecute,
      region_bytes =
        memcpy (replicate (unat (RoundUp (m_code_size d) (AllocatePageSize platform))) 0) 0
          (take (unat (m_code_size d)) (code_bytes d))\<rparr>"

definition metadata_region :: "Platform \<Rightarrow> EmbeddedData \<Rightarrow> Region" where
  "metadata_region platform d =
     \<lparr>region_size = unat (RoundUp (m_metadata_size d) (AllocatePageSize platform)),
      region_access = kRead,
      region_bytes =
        memcpy (replicate (unat (RoundUp (m_metadata_size d) (AllocatePageSize platform))) 0) 0
          (take (unat (m_metadata_size d)) (metadata_bytes d))\<rparr>"

text \<open>
  A platform with pages of 64 bytes that serves every request, and a world with one
  array and one region before the call.
\<close>

definition scenario_platform :: Platform where
  "scenario_platform =
     \<lparr>AllocatePageSize = 64, GetRandomMmapAddr = (\<lambda>k. if k = 0 then 300 else 400),
      grants_allocation = (\<lambda>p. True), grants_protection = (\<lambda>p access. True),
      grants_release = (\<lambda>p. True)\<rparr>"

definition scenario_world :: World where
  "scenario_world =
     \<lparr>arrays = {7},
      pages = [(128, \<lparr>region_size = 64, region_access = kRead,
                      region_bytes = replicate 64 1\<rparr>)]\<rparr>"

text \<open>
  What \<^verbatim>\<open>CreateOffHeapInstructionStream\<close> returns for the scenario on that platform, and
  the world it leaves.
\<close>

definition scenario_stream :: OffHeapInstructionStream where
  "scenario_stream =
     \<lparr>out_code = 256, out_code_size = 80, out_metadata = 384, out_metadata_size = 40\<rparr>"

definition scenario_world_after :: World where
  "scenario_world_after =
     \<lparr>arrays = {7},
      pages = [(384, metadata_region scenario_platform scenario_blob),
               (256, code_region scenario_platform scenario_blob),
               (128, \<lparr>region_size = 64, region_access = kRead,
                      region_bytes = replicate 64 1\<rparr>)]\<rparr>"

subsection \<open>The blob before the fix-up\<close>

text \<open>
  The two buffers of \<^verbatim>\<open>FromIsolate\<close> after its second loop (line 277): the code buffer
  zapped and with the units copied in, the metadata buffer with the hash of the isolate
  and the table, its hash field as \<^verbatim>\<open>new[]\<close> left it.
\<close>

definition copied_blob :: "Config \<Rightarrow> Isolate \<Rightarrow> NewArrays \<Rightarrow> EmbeddedData" where
  "copied_blob cfg isolate new =
     (let s = run_first_loop cfg isolate
      in \<lparr>m_code = blob_code new,
          m_code_size = RawCodeOffset cfg + raw_code_size s,
          code_bytes = copy_loop cfg (metadata s) (builtins isolate) 0
                         (ZapCode cfg (unat (RawCodeOffset cfg + raw_code_size s))),
          m_metadata = blob_metadata new,
          m_metadata_size = MetadataTableOffset + MetadataTableSize (builtin_count isolate),
          embedded_blob_hash = fresh_hash_field new,
          isolate_hash_field = isolate_hash isolate,
          metadata_table = metadata s\<rparr>)"

subsection \<open>Units of the kinds that the register check skips\<close>

text \<open>
  An isolate of two isolate-independent units whose descriptors have the trampoline
  register 7 of \<open>scenario_cfg\<close>: \<open>Handler\<close>, a bytecode handler, as its context register
  and as a parameter; \<open>Adaptor\<close>, of kind \<open>ASM\<close>, as its second parameter. And the blob
  \<^verbatim>\<open>FromIsolate\<close> builds for it in the buffers of \<open>scenario_new\<close>.
\<close>

definition trampoline_isolate :: Isolate where
  "trampoline_isolate =
     \<lparr>builtins = [safety_code 0 ''Handler'' BCH True 7 [7],
                  safety_code 1 ''Adaptor'' ASM True 1 [2, 7]],
      heap_code = [], isolate_hash = 5\<rparr>"

definition trampoline_blob :: EmbeddedData where
  "trampoline_blob =
     \<lparr>m_code = 64, m_code_size = 32,
      code_bytes = replicate 4 0x90 @ replicate 12 0xCC @ replicate 4 0x90 @
                   replicate 12 0xCC,
      m_metadata = 192, m_metadata_size = 32,
      embedded_blob_hash = 56, isolate_hash_field = 5,
      metadata_table =
        [\<lparr>instructions_offset = 0, instructions_length = 4\<rparr>,
         \<lparr>instructions_offset = 16, instructions_length = 4\<rparr>]\<rparr>"

section \<open>Properties\<close>

subsection \<open>The layout\<close>

lemma length_entries_from [simp]: "length (entries_from cfg off cs) = length cs"
  by (induction cs arbitrary: off) auto

lemma check_isolate_independent_layout [simp]:
  "raw_code_size (check_isolate_independent code s) = raw_code_size s"
  "metadata (check_isolate_independent code s) = metadata s"
  by (simp_all add: check_isolate_independent_def)

lemma check_aliases_layout [simp]:
  "raw_code_size (check_aliases cfg code s) = raw_code_size s"
  "metadata (check_aliases cfg code s) = metadata s"
  by (simp_all add: check_aliases_def)

lemma loop_body_layout:
  "raw_code_size (loop_body cfg i code s) = raw_code_size s + padded_length cfg code"
  "metadata (loop_body cfg i code s) =
     (metadata s)[i := \<lparr>instructions_offset = raw_code_size s,
        instructions_length = static_cast_uint32 (raw_instruction_size code)\<rparr>]"
  by (simp_all add: loop_body_def layout_step_def Let_def padded_length_def)

lemma first_loop_raw_code_size:
  "raw_code_size (first_loop cfg cs i s)
     = raw_code_size s + sum_list (map (padded_length cfg) cs)"
  by (induction cs arbitrary: i s) (simp_all add: loop_body_layout add.assoc)

lemma first_loop_metadata:
  "i + length cs \<le> length (metadata s) \<Longrightarrow>
   metadata (first_loop cfg cs i s)
     = take i (metadata s) @ entries_from cfg (raw_code_size s) cs
         @ drop (i + length cs) (metadata s)"
proof (induction cs arbitrary: i s)
  case Nil
  then show ?case by simp
next
  case (Cons code rest)
  let ?s = "loop_body cfg i code s"
  have len: "length (metadata ?s) = length (metadata s)"
    by (simp add: loop_body_layout)
  have i: "i < length (metadata s)" using Cons.prems by simp
  have "metadata (first_loop cfg (code # rest) i s) = metadata (first_loop cfg rest (Suc i) ?s)"
    by simp
  also have "\<dots> = take (Suc i) (metadata ?s) @ entries_from cfg (raw_code_size ?s) rest
         @ drop (Suc i + length rest) (metadata ?s)"
    using Cons.prems by (intro Cons.IH) (simp add: len)
  also have "take (Suc i) (metadata ?s)
      = take i (metadata s) @ [\<lparr>instructions_offset = raw_code_size s,
        instructions_length = static_cast_uint32 (raw_instruction_size code)\<rparr>]"
    using i by (simp add: loop_body_layout take_Suc_conv_app_nth)
  also have "drop (Suc i + length rest) (metadata ?s) = drop (i + length (code # rest)) (metadata s)"
    by (simp add: loop_body_layout)
  finally show ?case by (simp add: loop_body_layout)
qed

lemma run_first_loop_metadata:
  "metadata (run_first_loop cfg isolate) = entries_from cfg 0 (builtins isolate)"
  by (simp add: run_first_loop_def first_loop_metadata initial_state_def builtin_count_def)

lemma run_first_loop_raw_code_size:
  "raw_code_size (run_first_loop cfg isolate) = sum_list (map (padded_length cfg) (builtins isolate))"
  by (simp add: run_first_loop_def first_loop_raw_code_size initial_state_def)

lemma padded_total_simps [simp]:
  "padded_total cfg [] = 0"
  "padded_total cfg (c # cs) = unat (padded_length cfg c) + padded_total cfg cs"
  by (simp_all add: padded_total_def)

lemma padded_total_append [simp]:
  "padded_total cfg (xs @ ys) = padded_total cfg xs + padded_total cfg ys"
  by (simp add: padded_total_def)

lemma unat_sum_list_padded:
  "padded_total cfg cs < 2 ^ 32 \<Longrightarrow>
   unat (sum_list (map (padded_length cfg) cs)) = padded_total cfg cs"
proof (induction cs)
  case Nil
  then show ?case by simp
next
  case (Cons c cs)
  then have "unat (sum_list (map (padded_length cfg) cs)) = padded_total cfg cs" by simp
  with Cons.prems show ?case
    by (simp add: unat_word_ariths)
qed

lemma entries_from_nth:
  "j < length cs \<Longrightarrow> unat off + padded_total cfg cs < 2 ^ 32 \<Longrightarrow>
   unat (instructions_offset (entries_from cfg off cs ! j)) = unat off + padded_total cfg (take j cs)
   \<and> instructions_length (entries_from cfg off cs ! j)
       = static_cast_uint32 (raw_instruction_size (cs ! j))"
proof (induction cs arbitrary: off j)
  case Nil
  then show ?case by simp
next
  case (Cons c cs)
  show ?case
  proof (cases j)
    case 0
    then show ?thesis by simp
  next
    case (Suc k)
    have step: "unat (off + padded_length cfg c) = unat off + unat (padded_length cfg c)"
      using Cons.prems(2) by (simp add: unat_word_ariths)
    have "unat (off + padded_length cfg c) + padded_total cfg cs < 2 ^ 32"
      using Cons.prems(2) step by simp
    with Cons.IH [of k "off + padded_length cfg c"] Cons.prems(1) Suc step
    show ?thesis by simp
  qed
qed

lemma entries_from_cong:
  "map raw_instruction_size cs = map raw_instruction_size cs' \<Longrightarrow>
   entries_from cfg off cs = entries_from cfg off cs'"
proof (induction cs arbitrary: cs' off)
  case Nil
  then show ?case by simp
next
  case (Cons c cs)
  then obtain c' rest where cs': "cs' = c' # rest" by (cases cs') auto
  with Cons.prems have "raw_instruction_size c = raw_instruction_size c'"
    and "map raw_instruction_size cs = map raw_instruction_size rest" by simp_all
  with Cons.IH [of rest] cs' show ?case by (simp add: padded_length_def)
qed

lemma padded_sum_cong:
  assumes "map raw_instruction_size cs = map raw_instruction_size cs'"
  shows "sum_list (map (padded_length cfg) cs) = sum_list (map (padded_length cfg) cs')"
proof -
  have "map (padded_length cfg) cs
      = map (\<lambda>n. PadAndAlign cfg (static_cast_uint32 n)) (map raw_instruction_size cs)" for cs
    by (simp add: padded_length_def comp_def)
  with assms show ?thesis by metis
qed

lemma padded_total_take_Suc:
  "j < length cs \<Longrightarrow>
   padded_total cfg (take (Suc j) cs) = padded_total cfg (take j cs) + unat (padded_length cfg (cs ! j))"
  by (simp add: take_Suc_conv_app_nth)

lemma padded_total_take_le:
  "padded_total cfg (take j cs) \<le> padded_total cfg cs"
proof -
  have "padded_total cfg cs = padded_total cfg (take j cs) + padded_total cfg (drop j cs)"
    by (metis append_take_drop_id padded_total_append)
  then show ?thesis by simp
qed

lemma dvd_padded_total:
  "\<forall>c \<in> set cs. a dvd unat (padded_length cfg c) \<Longrightarrow> a dvd padded_total cfg cs"
  by (induction cs) auto

text \<open>
  C3 (amended). The offsets the first loop of \<^verbatim>\<open>FromIsolate\<close> writes depend only on the
  ordered lengths of the units (and on \<open>PadAndAlign\<close>): two isolates whose units have the same
  lengths get the same table and the same raw code size. When \<open>PadAndAlign\<close> gives every
  length at least that length and a multiple of the alignment, and the padded sizes add up
  below \<open>2^32\<close>, then \<open>offset[i] + length[i] \<le> offset[i+1]\<close>, every offset is a multiple of
  the alignment, and the raw code size is the last offset plus the last padded size. For
  lengths 10, 37, 4 and alignment 16 the offsets are 0, 16, 64 and the raw code size is 80.
\<close>

theorem layout_offsets:
  assumes pad: "\<forall>code \<in> set (builtins isolate).
      unat (static_cast_uint32 (raw_instruction_size code)) \<le> unat (padded_length cfg code) \<and>
      unat (kCodeAlignment cfg) dvd unat (padded_length cfg code)"
    and fit: "padded_total cfg (builtins isolate) < 2 ^ 32"
  shows "(\<forall>isolate'. map raw_instruction_size (builtins isolate')
              = map raw_instruction_size (builtins isolate) \<longrightarrow>
            metadata (run_first_loop cfg isolate') = metadata (run_first_loop cfg isolate) \<and>
            raw_code_size (run_first_loop cfg isolate')
              = raw_code_size (run_first_loop cfg isolate)) \<and>
         length (metadata (run_first_loop cfg isolate)) = builtin_count isolate \<and>
         (\<forall>i. Suc i < builtin_count isolate \<longrightarrow>
            unat (instructions_offset (metadata (run_first_loop cfg isolate) ! i)) +
            unat (instructions_length (metadata (run_first_loop cfg isolate) ! i))
              \<le> unat (instructions_offset (metadata (run_first_loop cfg isolate) ! Suc i))) \<and>
         (\<forall>i < builtin_count isolate.
            unat (kCodeAlignment cfg) dvd
              unat (instructions_offset (metadata (run_first_loop cfg isolate) ! i))) \<and>
         (0 < builtin_count isolate \<longrightarrow>
            unat (raw_code_size (run_first_loop cfg isolate))
              = unat (instructions_offset
                        (metadata (run_first_loop cfg isolate) ! (builtin_count isolate - 1))) +
                unat (PadAndAlign cfg (instructions_length
                        (metadata (run_first_loop cfg isolate) ! (builtin_count isolate - 1))))) \<and>
         map (\<lambda>m. unat (instructions_offset m)) (metadata (run_first_loop scenario_cfg scenario_isolate))
           = [0, 16, 64] \<and>
         unat (raw_code_size (run_first_loop scenario_cfg scenario_isolate)) = 80"
proof -
  let ?cs = "builtins isolate"
  let ?md = "metadata (run_first_loop cfg isolate)"
  have md: "?md = entries_from cfg 0 ?cs" by (rule run_first_loop_metadata)
  have nth: "unat (instructions_offset (?md ! j)) = padded_total cfg (take j ?cs)"
    "instructions_length (?md ! j) = static_cast_uint32 (raw_instruction_size (?cs ! j))"
    if "j < length ?cs" for j
    using entries_from_nth [of j ?cs 0 cfg] that fit by (simp_all add: md)
  have det: "\<forall>isolate'. map raw_instruction_size (builtins isolate')
              = map raw_instruction_size (builtins isolate) \<longrightarrow>
            metadata (run_first_loop cfg isolate') = metadata (run_first_loop cfg isolate) \<and>
            raw_code_size (run_first_loop cfg isolate')
              = raw_code_size (run_first_loop cfg isolate)"
    by (auto simp: run_first_loop_metadata run_first_loop_raw_code_size
        intro: entries_from_cong padded_sum_cong)
  have len: "length ?md = builtin_count isolate"
    by (simp add: md builtin_count_def)
  have sep: "\<forall>i. Suc i < builtin_count isolate \<longrightarrow>
            unat (instructions_offset (?md ! i)) + unat (instructions_length (?md ! i))
              \<le> unat (instructions_offset (?md ! Suc i))"
  proof (intro allI impI)
    fix i assume i: "Suc i < builtin_count isolate"
    then have i': "i < length ?cs" and si: "Suc i < length ?cs" by (simp_all add: builtin_count_def)
    have "?cs ! i \<in> set ?cs" using i' by simp
    with pad have "unat (static_cast_uint32 (raw_instruction_size (?cs ! i)))
        \<le> unat (padded_length cfg (?cs ! i))" by blast
    then show "unat (instructions_offset (?md ! i)) + unat (instructions_length (?md ! i))
              \<le> unat (instructions_offset (?md ! Suc i))"
      by (simp add: nth [OF i'] nth [OF si] padded_total_take_Suc [OF i'])
  qed
  have al: "\<forall>i < builtin_count isolate.
            unat (kCodeAlignment cfg) dvd unat (instructions_offset (?md ! i))"
  proof (intro allI impI)
    fix i assume "i < builtin_count isolate"
    then have i': "i < length ?cs" by (simp add: builtin_count_def)
    have "\<forall>c \<in> set (take i ?cs). unat (kCodeAlignment cfg) dvd unat (padded_length cfg c)"
      using pad by (meson in_set_takeD)
    then show "unat (kCodeAlignment cfg) dvd unat (instructions_offset (?md ! i))"
      by (simp add: nth [OF i'] dvd_padded_total)
  qed
  have tot: "0 < builtin_count isolate \<longrightarrow>
            unat (raw_code_size (run_first_loop cfg isolate))
              = unat (instructions_offset (?md ! (builtin_count isolate - 1))) +
                unat (PadAndAlign cfg (instructions_length (?md ! (builtin_count isolate - 1))))"
  proof
    assume pos: "0 < builtin_count isolate"
    then obtain k where sk: "length ?cs = Suc k"
      by (cases "length ?cs") (simp_all add: builtin_count_def)
    then have k: "k < length ?cs" by simp
    have bk: "builtin_count isolate - 1 = k" using sk by (simp add: builtin_count_def)
    have "padded_total cfg ?cs = padded_total cfg (take (Suc k) ?cs)" using sk by simp
    also have "\<dots> = padded_total cfg (take k ?cs) + unat (padded_length cfg (?cs ! k))"
      by (rule padded_total_take_Suc [OF k])
    finally have "padded_total cfg ?cs
        = unat (instructions_offset (?md ! k)) + unat (PadAndAlign cfg (instructions_length (?md ! k)))"
      by (simp add: nth [OF k] padded_length_def)
    moreover have "unat (raw_code_size (run_first_loop cfg isolate)) = padded_total cfg ?cs"
      using fit by (simp add: run_first_loop_raw_code_size unat_sum_list_padded)
    ultimately show "unat (raw_code_size (run_first_loop cfg isolate))
              = unat (instructions_offset (?md ! (builtin_count isolate - 1))) +
                unat (PadAndAlign cfg (instructions_length (?md ! (builtin_count isolate - 1))))"
      unfolding bk by simp
  qed
  have sc1: "map (\<lambda>m. unat (instructions_offset m))
       (metadata (run_first_loop scenario_cfg scenario_isolate)) = [0, 16, 64]"
    by code_simp
  have sc2: "unat (raw_code_size (run_first_loop scenario_cfg scenario_isolate)) = 80"
    by code_simp
  from det len sep al tot sc1 sc2 show ?thesis by (intro conjI)
qed

text \<open>
  C3 as stated has offsets 0, 16, 48 and a total of 64 for the scenario: unit 1, at offset 16
  and 37 bytes long, ends at 53, so unit 2 cannot start at 48.
\<close>

theorem layout_scenario_counterexample:
  "map (\<lambda>m. unat (instructions_offset m))
     (metadata (run_first_loop scenario_cfg scenario_isolate)) \<noteq> [0, 16, 48] \<and>
   unat (raw_code_size (run_first_loop scenario_cfg scenario_isolate)) \<noteq> 64"
  by code_simp

text \<open>The hypotheses of \<open>layout_offsets\<close> hold in the scenario.\<close>

theorem layout_offsets_witness:
  "padded_total scenario_cfg (builtins scenario_isolate) < 2 ^ 32 \<and>
   unat (instructions_offset (metadata (run_first_loop scenario_cfg scenario_isolate) ! 0)) +
   unat (instructions_length (metadata (run_first_loop scenario_cfg scenario_isolate) ! 0))
     \<le> unat (instructions_offset (metadata (run_first_loop scenario_cfg scenario_isolate) ! Suc 0)) \<and>
   unat (kCodeAlignment scenario_cfg) dvd
     unat (instructions_offset (metadata (run_first_loop scenario_cfg scenario_isolate) ! Suc 0)) \<and>
   unat (raw_code_size (run_first_loop scenario_cfg scenario_isolate))
     = unat (instructions_offset (metadata (run_first_loop scenario_cfg scenario_isolate)
               ! (builtin_count scenario_isolate - 1))) +
       unat (PadAndAlign scenario_cfg (instructions_length
               (metadata (run_first_loop scenario_cfg scenario_isolate)
                 ! (builtin_count scenario_isolate - 1))))"
proof -
  have pad: "\<forall>code \<in> set (builtins scenario_isolate).
      unat (static_cast_uint32 (raw_instruction_size code))
        \<le> unat (padded_length scenario_cfg code) \<and>
      unat (kCodeAlignment scenario_cfg) dvd unat (padded_length scenario_cfg code)"
    by code_simp
  have "padded_total scenario_cfg (builtins scenario_isolate) = 80"
    by code_simp
  then have fit: "padded_total scenario_cfg (builtins scenario_isolate) < 2 ^ 32"
    by simp
  have n: "builtin_count scenario_isolate = 3" by code_simp
  note T = layout_offsets [OF pad fit]
  from T have sep: "\<forall>i. Suc i < builtin_count scenario_isolate \<longrightarrow>
            unat (instructions_offset (metadata (run_first_loop scenario_cfg scenario_isolate) ! i)) +
            unat (instructions_length (metadata (run_first_loop scenario_cfg scenario_isolate) ! i))
              \<le> unat (instructions_offset (metadata (run_first_loop scenario_cfg scenario_isolate) ! Suc i))"
    by blast
  from T have al: "\<forall>i < builtin_count scenario_isolate.
            unat (kCodeAlignment scenario_cfg) dvd
              unat (instructions_offset (metadata (run_first_loop scenario_cfg scenario_isolate) ! i))"
    by blast
  from T have tot: "0 < builtin_count scenario_isolate \<longrightarrow>
            unat (raw_code_size (run_first_loop scenario_cfg scenario_isolate))
              = unat (instructions_offset
                        (metadata (run_first_loop scenario_cfg scenario_isolate) ! (builtin_count scenario_isolate - 1))) +
                unat (PadAndAlign scenario_cfg (instructions_length
                        (metadata (run_first_loop scenario_cfg scenario_isolate) ! (builtin_count scenario_isolate - 1))))"
    by blast
  have s0: "Suc 0 < builtin_count scenario_isolate" and z: "0 < builtin_count scenario_isolate"
    using n by simp_all
  show ?thesis
    using fit sep [rule_format, OF s0] al [rule_format, OF s0] tot [rule_format, OF z]
    by (intro conjI)
qed

subsection \<open>What the relocation fix-up leaves alone\<close>

lemma same_frame_refl [simp]: "same_frame blob blob"
  by (simp add: same_frame_def)

lemma same_frame_trans: "same_frame a b \<Longrightarrow> same_frame b c \<Longrightarrow> same_frame a c"
  unfolding same_frame_def
  by (metis (no_types, lifting) EmbeddedData.surjective EmbeddedData.update_convs(3))

lemma length_memcpy [simp]: "length (memcpy buf dst src) = length buf"
  by (simp add: memcpy_def)

lemma same_frame_set_target_address:
  "same_frame blob (fst (set_target_address cfg rinfo target mode blob))"
  by (simp add: same_frame_def set_target_address_def)

lemma same_frame_accessors:
  assumes "same_frame blob blob'"
  shows "m_code blob' = m_code blob" "m_code_size blob' = m_code_size blob"
    "m_metadata blob' = m_metadata blob" "m_metadata_size blob' = m_metadata_size blob"
    "embedded_blob_hash blob' = embedded_blob_hash blob"
    "isolate_hash_field blob' = isolate_hash_field blob"
    "metadata_table blob' = metadata_table blob"
    "InstructionStartOfBuiltin cfg blob' i = InstructionStartOfBuiltin cfg blob i"
    "RelocIterator_blob cfg blob' code = RelocIterator_blob cfg blob code"
proof -
  from assms have eq: "blob' = blob\<lparr>code_bytes := code_bytes blob'\<rparr>"
    by (simp add: same_frame_def)
  show "m_code blob' = m_code blob" by (subst eq) simp
  show "m_code_size blob' = m_code_size blob" by (subst eq) simp
  show "m_metadata blob' = m_metadata blob" by (subst eq) simp
  show "m_metadata_size blob' = m_metadata_size blob" by (subst eq) simp
  show "embedded_blob_hash blob' = embedded_blob_hash blob" by (subst eq) simp
  show "isolate_hash_field blob' = isolate_hash_field blob" by (subst eq) simp
  show mt: "metadata_table blob' = metadata_table blob" by (subst eq) simp
  show st: "InstructionStartOfBuiltin cfg blob' i = InstructionStartOfBuiltin cfg blob i" for i
    unfolding InstructionStartOfBuiltin_def RawCode_def by (subst (1 2) eq) simp
  show "RelocIterator_blob cfg blob' code = RelocIterator_blob cfg blob code"
    by (simp add: RelocIterator_blob_def st)
qed

lemma same_frame_targets_loop:
  "targets_loop cfg isolate on_heap_it off_heap_it (blob, bs) = Inr (blob', bs') \<Longrightarrow>
   same_frame blob blob'"
proof (induction cfg isolate on_heap_it off_heap_it "(blob, bs)" arbitrary: blob bs
    rule: targets_loop.induct)
  case (1 cfg isolate off_heap_it blob barriers)
  then show ?case by simp
next
  case (2 cfg isolate rinfo on_heap_it blob barriers)
  then show ?case by simp
next
  case (3 cfg isolate rinfo on_heap_it off_rinfo off_heap_it blob barriers)
  let ?target = "GetCodeFromTargetAddress isolate (target_address rinfo)"
  let ?st = "set_target_address cfg off_rinfo
      (InstructionStartOfBuiltin cfg blob (builtin_index (the ?target))) SKIP_WRITE_BARRIER blob"
  from "3.prems" have ok: "IsIsolateIndependentBuiltin isolate ?target"
    by (auto simp: Let_def split: if_splits)
  with "3.prems" have run: "targets_loop cfg isolate on_heap_it off_heap_it
      (fst ?st, barriers @ snd ?st) = Inr (blob', bs')"
    by (simp add: Let_def split_beta)
  have "same_frame (fst ?st) blob'"
    by (rule "3.hyps" [OF refl _ _ _ run]) (use ok in \<open>simp_all add: prod_eq_iff\<close>)
  with same_frame_set_target_address [of blob cfg off_rinfo] show ?case
    by (blast intro: same_frame_trans)
qed

lemma same_frame_finalize_loop:
  "finalize_loop cfg isolate codes (blob, bs) = Inr (blob', bs') \<Longrightarrow> same_frame blob blob'"
proof (induction codes arbitrary: blob bs)
  case Nil
  then show ?case by simp
next
  case (Cons code rest)
  show ?case
  proof (cases "direct_code_targets cfg")
    case True
    with Cons.prems obtain blob1 bs1 where
      one: "targets_loop cfg isolate (RelocIterator code) (RelocIterator_blob cfg blob code)
              (blob, bs) = Inr (blob1, bs1)"
      and rest: "finalize_loop cfg isolate rest (blob1, bs1) = Inr (blob', bs')"
      by (auto simp: Let_def split: sum.splits)
    from same_frame_targets_loop [OF one] Cons.IH [OF rest] show ?thesis
      by (rule same_frame_trans)
  next
    case False
    with Cons.prems have "finalize_loop cfg isolate rest (blob, bs) = Inr (blob', bs')"
      by (auto simp: Let_def split: if_splits)
    then show ?thesis by (rule Cons.IH)
  qed
qed

lemma same_frame_Finalize:
  "FinalizeEmbeddedCodeTargets cfg isolate blob = Inr (blob', bs) \<Longrightarrow> same_frame blob blob'"
  unfolding FinalizeEmbeddedCodeTargets_def by (rule same_frame_finalize_loop)

subsection \<open>The blob \<^verbatim>\<open>FromIsolate\<close> returns\<close>

lemma length_copy_loop [simp]: "length (copy_loop cfg md codes i buf) = length buf"
  by (induction codes arbitrary: i buf) simp_all

lemma FromIsolate_Inr:
  assumes "FromIsolate cfg isolate new = Inr d"
  shows "\<not> saw_unsafe_builtin (run_first_loop cfg isolate)"
    and "m_code d = blob_code new"
    and "m_code_size d = RawCodeOffset cfg + raw_code_size (run_first_loop cfg isolate)"
    and "metadata_table d = metadata (run_first_loop cfg isolate)"
    and "m_metadata d = blob_metadata new"
    and "m_metadata_size d = MetadataTableOffset + MetadataTableSize (builtin_count isolate)"
    and "isolate_hash_field d = isolate_hash isolate"
    and "length (code_bytes d) = unat (m_code_size d)"
proof -
  let ?s = "run_first_loop cfg isolate"
  let ?d0 = "\<lparr>m_code = blob_code new,
       m_code_size = RawCodeOffset cfg + raw_code_size ?s,
       code_bytes = copy_loop cfg (metadata ?s) (builtins isolate) 0
          (ZapCode cfg (unat (RawCodeOffset cfg + raw_code_size ?s))),
       m_metadata = blob_metadata new,
       m_metadata_size = MetadataTableOffset + MetadataTableSize (builtin_count isolate),
       embedded_blob_hash = fresh_hash_field new,
       isolate_hash_field = isolate_hash isolate,
       metadata_table = metadata ?s\<rparr>"
  from assms show safe: "\<not> saw_unsafe_builtin ?s"
    by (auto simp: FromIsolate_def Let_def split: if_splits)
  with assms obtain d' bs where fin: "FinalizeEmbeddedCodeTargets cfg isolate ?d0 = Inr (d', bs)"
    and d: "d = d'\<lparr>embedded_blob_hash := CreateEmbeddedBlobHash cfg d'\<rparr>"
    by (auto simp: FromIsolate_def Let_def split: sum.splits)
  note sf = same_frame_Finalize [OF fin]
  note acc = same_frame_accessors [OF sf]
  show "m_code d = blob_code new" by (simp add: d acc)
  show "m_code_size d = RawCodeOffset cfg + raw_code_size ?s" by (simp add: d acc)
  show "metadata_table d = metadata ?s" by (simp add: d acc)
  show "m_metadata d = blob_metadata new" by (simp add: d acc)
  show "m_metadata_size d = MetadataTableOffset + MetadataTableSize (builtin_count isolate)"
    by (simp add: d acc)
  show "isolate_hash_field d = isolate_hash isolate" by (simp add: d acc)
  from sf have "length (code_bytes d') = length (code_bytes ?d0)" by (simp add: same_frame_def)
  then show "length (code_bytes d) = unat (m_code_size d)"
    by (simp add: d acc ZapCode_def)
qed

subsection \<open>Where the units lie in the blob \<^verbatim>\<open>FromIsolate\<close> returns\<close>

lemma built_layout:
  assumes built: "FromIsolate cfg isolate new = Inr d"
    and fit: "unat (RawCodeOffset cfg) + padded_total cfg (builtins isolate) < 2 ^ 32"
  shows "length (metadata_table d) = length (builtins isolate)"
    and "code_region_end d
       = blob_code new + unat (RawCodeOffset cfg) + padded_total cfg (builtins isolate)"
    and "j < length (builtins isolate) \<Longrightarrow>
       InstructionStartOfBuiltin cfg d (int j)
         = blob_code new + unat (RawCodeOffset cfg) + padded_total cfg (take j (builtins isolate))"
    and "j < length (builtins isolate) \<Longrightarrow>
       InstructionSizeOfBuiltin d (int j)
         = static_cast_uint32 (raw_instruction_size (builtins isolate ! j))"
    and "j < length (builtins isolate) \<Longrightarrow>
       range_end cfg d j
         = blob_code new + unat (RawCodeOffset cfg)
           + padded_total cfg (take (Suc j) (builtins isolate))"
proof -
  let ?cs = "builtins isolate"
  note F = FromIsolate_Inr [OF built]
  have fit': "padded_total cfg ?cs < 2 ^ 32" using fit by simp
  have tab: "metadata_table d = entries_from cfg 0 ?cs"
    by (simp add: F run_first_loop_metadata)
  show "length (metadata_table d) = length ?cs" by (simp add: tab)
  have raw: "unat (raw_code_size (run_first_loop cfg isolate)) = padded_total cfg ?cs"
    by (simp add: run_first_loop_raw_code_size unat_sum_list_padded [OF fit'])
  have "unat (m_code_size d) = unat (RawCodeOffset cfg) + padded_total cfg ?cs"
    using fit by (simp add: F unat_word_ariths raw)
  then show "code_region_end d = blob_code new + unat (RawCodeOffset cfg) + padded_total cfg ?cs"
    by (simp add: code_region_end_def F)
  {
    assume j: "j < length ?cs"
    from entries_from_nth [OF j, of 0 cfg] fit'
    have off: "unat (instructions_offset (metadata_table d ! j)) = padded_total cfg (take j ?cs)"
      and len: "instructions_length (metadata_table d ! j)
          = static_cast_uint32 (raw_instruction_size (?cs ! j))"
      by (simp_all add: tab)
    show st: "InstructionStartOfBuiltin cfg d (int j)
         = blob_code new + unat (RawCodeOffset cfg) + padded_total cfg (take j ?cs)"
      by (simp add: InstructionStartOfBuiltin_def RawCode_def F(2) off)
    show sz: "InstructionSizeOfBuiltin d (int j)
         = static_cast_uint32 (raw_instruction_size (?cs ! j))"
      by (simp add: InstructionSizeOfBuiltin_def len)
    show "range_end cfg d j
         = blob_code new + unat (RawCodeOffset cfg) + padded_total cfg (take (Suc j) ?cs)"
      by (simp add: range_end_def st PaddedInstructionSizeOfBuiltin_def sz
          padded_total_take_Suc [OF j] padded_length_def)
  }
qed

text \<open>
  C10. In the blob \<^verbatim>\<open>FromIsolate\<close> returns, for every index \<open>i\<close> below the number of
  builtins, the entry's length is the unit's instruction size, the instruction start plus
  that length is at most the end of the code region (the \<^verbatim>\<open>DCHECK_LE\<close>s of lines 271 and
  302), and the start is the end of the code region only when the length is 0 (the
  \<^verbatim>\<open>DCHECK_IMPLIES\<close> of line 303). The padded size of a unit is at least its size, and the
  sizes add up below \<open>2^32\<close>.
\<close>

theorem InstructionStartOfBuiltin_in_code:
  assumes built: "FromIsolate cfg isolate new = Inr d"
    and pad: "\<forall>code \<in> set (builtins isolate).
      unat (static_cast_uint32 (raw_instruction_size code)) \<le> unat (padded_length cfg code)"
    and fit: "unat (RawCodeOffset cfg) + padded_total cfg (builtins isolate) < 2 ^ 32"
    and i: "i < builtin_count isolate"
  shows "InstructionSizeOfBuiltin d (int i)
           = static_cast_uint32 (raw_instruction_size (builtins isolate ! i)) \<and>
         InstructionStartOfBuiltin cfg d (int i) + unat (InstructionSizeOfBuiltin d (int i))
           \<le> m_code d + unat (m_code_size d) \<and>
         InstructionStartOfBuiltin cfg d (int i) \<le> m_code d + unat (m_code_size d) \<and>
         (InstructionStartOfBuiltin cfg d (int i) = m_code d + unat (m_code_size d) \<longrightarrow>
            InstructionSizeOfBuiltin d (int i) = 0)"
proof -
  let ?cs = "builtins isolate"
  from i have j: "i < length ?cs" by (simp add: builtin_count_def)
  note L = built_layout [OF built fit]
  have "?cs ! i \<in> set ?cs" using j by simp
  with pad have le: "unat (static_cast_uint32 (raw_instruction_size (?cs ! i)))
      \<le> unat (padded_length cfg (?cs ! i))" by blast
  have "padded_total cfg (take i ?cs) + unat (padded_length cfg (?cs ! i))
      \<le> padded_total cfg ?cs"
    using padded_total_take_le [of cfg "Suc i" ?cs] by (simp add: padded_total_take_Suc [OF j])
  with le have bound: "InstructionStartOfBuiltin cfg d (int i)
      + unat (InstructionSizeOfBuiltin d (int i)) \<le> code_region_end d"
    by (simp add: L(2) L(3) [OF j] L(4) [OF j])
  then have "InstructionStartOfBuiltin cfg d (int i) = code_region_end d \<longrightarrow>
      unat (InstructionSizeOfBuiltin d (int i)) = 0" by simp
  with bound L(4) [OF j] show ?thesis
    by (simp add: code_region_end_def unat_eq_0)
qed


lemma scenario_FromIsolate:
  "FromIsolate scenario_cfg scenario_isolate scenario_new = Inr scenario_blob"
  by code_simp

lemma scenario_built: "\<exists>d. FromIsolate scenario_cfg scenario_isolate scenario_new = Inr d"
  using scenario_FromIsolate by blast

lemma scenario_pad:
  "\<forall>code \<in> set (builtins scenario_isolate).
      unat (static_cast_uint32 (raw_instruction_size code))
        \<le> unat (padded_length scenario_cfg code)"
  by code_simp

lemma scenario_fit:
  "unat (RawCodeOffset scenario_cfg) + padded_total scenario_cfg (builtins scenario_isolate)
     < 2 ^ 32"
proof -
  have "unat (RawCodeOffset scenario_cfg) + padded_total scenario_cfg (builtins scenario_isolate)
      = 80" by code_simp
  then show ?thesis by simp
qed

text \<open>The hypotheses of \<open>InstructionStartOfBuiltin_in_code\<close> hold in the scenario.\<close>

theorem InstructionStartOfBuiltin_in_code_witness:
  "\<exists>d. FromIsolate scenario_cfg scenario_isolate scenario_new = Inr d \<and>
       InstructionStartOfBuiltin scenario_cfg d 2 + unat (InstructionSizeOfBuiltin d 2)
         \<le> m_code d + unat (m_code_size d) \<and>
       InstructionSizeOfBuiltin d 2 = 4"
proof -
  from scenario_built obtain d
    where d: "FromIsolate scenario_cfg scenario_isolate scenario_new = Inr d" ..
  have i: "2 < builtin_count scenario_isolate" by code_simp
  have "static_cast_uint32 (raw_instruction_size (builtins scenario_isolate ! 2)) = 4"
    by code_simp
  with InstructionStartOfBuiltin_in_code [OF d scenario_pad scenario_fit i] d
  show ?thesis by auto
qed

subsection \<open>The binary search\<close>

lemma lookup_loop_finds:
  assumes contiguous: "\<And>j. Suc j < n \<Longrightarrow>
      range_end cfg d j = InstructionStartOfBuiltin cfg d (int (Suc j))"
  shows "l < r \<Longrightarrow> r \<le> n \<Longrightarrow> InstructionStartOfBuiltin cfg d (int l) \<le> address \<Longrightarrow>
     address < range_end cfg d (r - 1) \<Longrightarrow>
     \<exists>i. lookup_loop cfg d address l r = Inr (Some i) \<and> l \<le> i \<and> i < r \<and>
         InstructionStartOfBuiltin cfg d (int i) \<le> address \<and> address < range_end cfg d i"
proof (induction "r - l" arbitrary: l r rule: less_induct)
  case less
  let ?mid = "(l + r) div 2"
  let ?start = "InstructionStartOfBuiltin cfg d (int ?mid)"
  have mid: "l \<le> ?mid" "?mid < r" using less.prems(1) by auto
  have unfold: "lookup_loop cfg d address l r =
      (if address < ?start then lookup_loop cfg d address l ?mid
       else if address \<ge> range_end cfg d ?mid then lookup_loop cfg d address (?mid + 1) r
       else Inr (Some ?mid))"
    using less.prems(1) by (subst lookup_loop.simps) (simp add: Let_def range_end_def)
  consider (left) "address < ?start"
    | (right) "\<not> address < ?start" "address \<ge> range_end cfg d ?mid"
    | (found) "\<not> address < ?start" "\<not> address \<ge> range_end cfg d ?mid"
    by blast
  then show ?case
  proof cases
    case left
    with less.prems(3) have "l \<noteq> ?mid" by auto
    with mid have lm: "l < ?mid" by simp
    then obtain k where k: "?mid = Suc k" by (cases ?mid) auto
    have "Suc k < n" using mid(2) less.prems(2) k by simp
    from contiguous [OF this] left k have up: "address < range_end cfg d (?mid - 1)" by simp
    have "\<exists>i. lookup_loop cfg d address l ?mid = Inr (Some i) \<and> l \<le> i \<and> i < ?mid \<and>
         InstructionStartOfBuiltin cfg d (int i) \<le> address \<and> address < range_end cfg d i"
      using mid less.prems lm up by (intro less.hyps) auto
    with left unfold mid show ?thesis by auto
  next
    case right
    with less.prems(4) have "?mid \<noteq> r - 1" by auto
    with mid have mr: "Suc ?mid < r" by simp
    then have "Suc ?mid < n" using less.prems(2) by simp
    from contiguous [OF this] right
    have lo: "InstructionStartOfBuiltin cfg d (int (?mid + 1)) \<le> address" by simp
    have "\<exists>i. lookup_loop cfg d address (?mid + 1) r = Inr (Some i) \<and> ?mid + 1 \<le> i \<and> i < r \<and>
         InstructionStartOfBuiltin cfg d (int i) \<le> address \<and> address < range_end cfg d i"
      using mid less.prems mr lo by (intro less.hyps) auto
    with right unfold mid show ?thesis by auto
  next
    case found
    with unfold mid show ?thesis by auto
  qed
qed

lemma padded_total_take_mono:
  "i \<le> j \<Longrightarrow> padded_total cfg (take i cs) \<le> padded_total cfg (take j cs)"
proof -
  assume "i \<le> j"
  then have "take i cs = take i (take j cs)" by (simp add: min_def)
  then show ?thesis by (metis padded_total_take_le)
qed

lemma built_contiguous:
  assumes built: "FromIsolate cfg isolate new = Inr d"
    and fit: "unat (RawCodeOffset cfg) + padded_total cfg (builtins isolate) < 2 ^ 32"
    and j: "Suc j < length (builtins isolate)"
  shows "range_end cfg d j = InstructionStartOfBuiltin cfg d (int (Suc j))"
proof -
  from j have "j < length (builtins isolate)" by simp
  then show ?thesis
    by (simp only: built_layout(5) [OF built fit] built_layout(3) [OF built fit j])
qed

lemma built_ranges_disjoint:
  assumes built: "FromIsolate cfg isolate new = Inr d"
    and fit: "unat (RawCodeOffset cfg) + padded_total cfg (builtins isolate) < 2 ^ 32"
    and i: "i < length (builtins isolate)" and j: "j < length (builtins isolate)"
    and ai: "InstructionStartOfBuiltin cfg d (int i) \<le> a" "a < range_end cfg d i"
    and aj: "InstructionStartOfBuiltin cfg d (int j) \<le> a" "a < range_end cfg d j"
  shows "i = j"
proof (rule ccontr)
  assume ne: "i \<noteq> j"
  note L = built_layout [OF built fit]
  have False if lt: "x < y" and x: "x < length (builtins isolate)"
    and y: "y < length (builtins isolate)"
    and ax: "a < range_end cfg d x" and ay: "InstructionStartOfBuiltin cfg d (int y) \<le> a"
    for x y
  proof -
    have "padded_total cfg (take (Suc x) (builtins isolate))
        \<le> padded_total cfg (take y (builtins isolate))"
      using lt by (intro padded_total_take_mono) simp
    with ax ay show False by (simp add: L(5) [OF x] L(3) [OF y])
  qed
  from this [of i j] this [of j i] ne i j ai aj show False
    by (cases "i < j") auto
qed

text \<open>
  C4 (amended). In the blob \<^verbatim>\<open>FromIsolate\<close> returns (with at least one builtin, and sizes
  that add up below \<open>2^32\<close>), \<^verbatim>\<open>TryLookupCode\<close> answers "not found" for every address
  below the start of unit 0 or at or beyond the end of the code region; for every other
  address it returns the one index \<open>i\<close> whose range \<open>[start i, start i + padded size i)\<close>
  holds the address; an address in the padding of unit \<open>i\<close> (from \<open>start i + size i\<close> up to
  the end of the range) resolves to \<open>i\<close>; and the search never reaches \<^verbatim>\<open>UNREACHABLE\<close>. In
  the scenario (lengths 10, 37, 4, alignment 16) unit 1 has the range \<open>[16, 64)\<close>: the
  offsets 40, 48 and 60 (in its padding) resolve to unit 1, the offset 64 to unit 2.
\<close>

theorem TryLookupCode_resolves:
  assumes built: "FromIsolate cfg isolate new = Inr d"
    and fit: "unat (RawCodeOffset cfg) + padded_total cfg (builtins isolate) < 2 ^ 32"
    and nonempty: "builtins isolate \<noteq> []"
  shows "(address < InstructionStartOfBuiltin cfg d 0 \<or> code_region_end d \<le> address \<longrightarrow>
            TryLookupCode cfg d address = Inr None) \<and>
         (InstructionStartOfBuiltin cfg d 0 \<le> address \<and> address < code_region_end d \<longrightarrow>
            (\<exists>i < builtin_count isolate.
               TryLookupCode cfg d address = Inr (Some i) \<and>
               InstructionStartOfBuiltin cfg d (int i) \<le> address \<and>
               address < range_end cfg d i \<and>
               (\<forall>j < builtin_count isolate.
                  InstructionStartOfBuiltin cfg d (int j) \<le> address \<and>
                  address < range_end cfg d j \<longrightarrow> j = i))) \<and>
         (\<forall>i < builtin_count isolate.
            InstructionStartOfBuiltin cfg d (int i) + unat (InstructionSizeOfBuiltin d (int i))
              \<le> address \<and> address < range_end cfg d i \<longrightarrow>
            TryLookupCode cfg d address = Inr (Some i)) \<and>
         TryLookupCode cfg d address \<noteq> Inl UNREACHABLE \<and>
         resolve_in_built scenario_cfg scenario_isolate scenario_new 40 = Inr (Some 1) \<and>
         resolve_in_built scenario_cfg scenario_isolate scenario_new 48 = Inr (Some 1) \<and>
         resolve_in_built scenario_cfg scenario_isolate scenario_new 60 = Inr (Some 1) \<and>
         resolve_in_built scenario_cfg scenario_isolate scenario_new 64 = Inr (Some 2)"
proof -
  let ?cs = "builtins isolate"
  let ?n = "length ?cs"
  let ?start = "\<lambda>i. InstructionStartOfBuiltin cfg d (int i)"
  let ?s0 = "InstructionStartOfBuiltin cfg d 0"
  note L = built_layout [OF built fit]
  from nonempty have n: "0 < ?n" by simp
  have start0: "?s0 = blob_code new + unat (RawCodeOffset cfg)"
    using L(3) [OF n] by simp
  have last: "range_end cfg d (?n - 1) = code_region_end d"
    using n by (simp add: L(5) L(2))
  have code_le: "m_code d \<le> ?s0"
    by (simp add: start0 FromIsolate_Inr(2) [OF built])
  have inside: "\<exists>i < ?n. TryLookupCode cfg d address = Inr (Some i) \<and> ?start i \<le> address \<and>
      address < range_end cfg d i"
    if lo: "?s0 \<le> address" and hi: "address < code_region_end d"
  proof -
    have "\<exists>i. lookup_loop cfg d address 0 ?n = Inr (Some i) \<and> 0 \<le> i \<and> i < ?n \<and>
         ?start i \<le> address \<and> address < range_end cfg d i"
      using n lo hi last
      by (intro lookup_loop_finds [where n = ?n] built_contiguous [OF built fit]) simp_all
    moreover have "TryLookupCode cfg d address = lookup_loop cfg d address 0 ?n"
      using lo hi code_le
      by (simp add: TryLookupCode_def PcIsOffHeap_def code_region_end_def L(1))
    ultimately show ?thesis by auto
  qed
  have outside: "TryLookupCode cfg d address = Inr None"
    if "address < ?s0 \<or> code_region_end d \<le> address"
    using that by (auto simp: TryLookupCode_def PcIsOffHeap_def code_region_end_def)
  have unique: "j = i" if "i < ?n" "j < ?n" "?start i \<le> address" "address < range_end cfg d i"
    "?start j \<le> address" "address < range_end cfg d j" for i j
    using built_ranges_disjoint [OF built fit that(2) that(1) that(5) that(6) that(3) that(4)] .
  have range_in: "?s0 \<le> address \<and> address < code_region_end d"
    if i: "i < ?n" and a: "?start i \<le> address" "address < range_end cfg d i" for i
  proof -
    have "padded_total cfg (take (Suc i) ?cs) \<le> padded_total cfg ?cs"
      by (rule padded_total_take_le)
    with a show ?thesis by (simp add: start0 L(2) L(3) [OF i] L(5) [OF i])
  qed
  have c1: "address < ?s0 \<or> code_region_end d \<le> address \<longrightarrow>
      TryLookupCode cfg d address = Inr None"
    using outside by simp
  have c2: "?s0 \<le> address \<and> address < code_region_end d \<longrightarrow>
      (\<exists>i < builtin_count isolate.
         TryLookupCode cfg d address = Inr (Some i) \<and> ?start i \<le> address \<and>
         address < range_end cfg d i \<and>
         (\<forall>j < builtin_count isolate.
            ?start j \<le> address \<and> address < range_end cfg d j \<longrightarrow> j = i))"
  proof
    assume "?s0 \<le> address \<and> address < code_region_end d"
    with inside obtain i where i: "i < ?n" "TryLookupCode cfg d address = Inr (Some i)"
      "?start i \<le> address" "address < range_end cfg d i" by auto
    with unique show "\<exists>i < builtin_count isolate.
         TryLookupCode cfg d address = Inr (Some i) \<and> ?start i \<le> address \<and>
         address < range_end cfg d i \<and>
         (\<forall>j < builtin_count isolate.
            ?start j \<le> address \<and> address < range_end cfg d j \<longrightarrow> j = i)"
      unfolding builtin_count_def by blast
  qed
  have c3: "\<forall>i < builtin_count isolate.
      ?start i + unat (InstructionSizeOfBuiltin d (int i)) \<le> address \<and>
      address < range_end cfg d i \<longrightarrow> TryLookupCode cfg d address = Inr (Some i)"
  proof (intro allI impI)
    fix i assume "i < builtin_count isolate"
      and a: "?start i + unat (InstructionSizeOfBuiltin d (int i)) \<le> address \<and>
        address < range_end cfg d i"
    then have i: "i < ?n" and ai: "?start i \<le> address" "address < range_end cfg d i"
      by (simp_all add: builtin_count_def)
    from range_in [OF i ai] inside obtain k where k: "k < ?n"
      "TryLookupCode cfg d address = Inr (Some k)" "?start k \<le> address"
      "address < range_end cfg d k" by auto
    from unique [OF k(1) i k(3) k(4) ai] k(2)
    show "TryLookupCode cfg d address = Inr (Some i)" by simp
  qed
  have c4: "TryLookupCode cfg d address \<noteq> Inl UNREACHABLE"
  proof (cases "?s0 \<le> address \<and> address < code_region_end d")
    case True
    with inside show ?thesis by auto
  next
    case False
    with outside show ?thesis by auto
  qed
  have s1: "resolve_in_built scenario_cfg scenario_isolate scenario_new 40 = Inr (Some 1)"
    unfolding resolve_in_built_def scenario_FromIsolate by code_simp
  have s2: "resolve_in_built scenario_cfg scenario_isolate scenario_new 48 = Inr (Some 1)"
    unfolding resolve_in_built_def scenario_FromIsolate by code_simp
  have s3: "resolve_in_built scenario_cfg scenario_isolate scenario_new 60 = Inr (Some 1)"
    unfolding resolve_in_built_def scenario_FromIsolate by code_simp
  have s4: "resolve_in_built scenario_cfg scenario_isolate scenario_new 64 = Inr (Some 2)"
    unfolding resolve_in_built_def scenario_FromIsolate by code_simp
  from c1 c2 c3 c4 s1 s2 s3 s4 show ?thesis by (intro conjI)
qed

text \<open>
  C4 as stated has the offset 48 of the scenario resolve to unit 2; it resolves to unit 1,
  whose 37 bytes at offset 16 reach to 53.
\<close>

theorem TryLookupCode_scenario_counterexample:
  "resolve_in_built scenario_cfg scenario_isolate scenario_new 48 \<noteq> Inr (Some 2)"
  unfolding resolve_in_built_def scenario_FromIsolate by code_simp

text \<open>The hypotheses of \<open>TryLookupCode_resolves\<close> hold in the scenario.\<close>

theorem TryLookupCode_resolves_witness:
  "FromIsolate scenario_cfg scenario_isolate scenario_new = Inr scenario_blob \<and>
   builtins scenario_isolate \<noteq> [] \<and>
   TryLookupCode scenario_cfg scenario_blob 124 = Inr (Some 1) \<and>
   TryLookupCode scenario_cfg scenario_blob 10 = Inr None"
proof -
  have ne: "builtins scenario_isolate \<noteq> []" by code_simp
  have i: "1 < builtin_count scenario_isolate" by code_simp
  note T = TryLookupCode_resolves [OF scenario_FromIsolate scenario_fit ne]
  have "TryLookupCode scenario_cfg scenario_blob 124 = Inr (Some 1)"
    by (rule T [of 124, THEN conjunct2, THEN conjunct2, THEN conjunct1, rule_format, OF i])
      code_simp
  moreover have "TryLookupCode scenario_cfg scenario_blob 10 = Inr None"
    by (rule T [of 10, THEN conjunct1, rule_format]) code_simp
  ultimately show ?thesis using scenario_FromIsolate ne by (intro conjI)
qed

subsection \<open>The safety checks\<close>

lemma aliases_loop_iff: "aliases_loop r regs \<longleftrightarrow> r \<in> set regs"
  by (induction regs) auto

lemma BuiltinAliasesOffHeapTrampolineRegister_iff:
  "BuiltinAliasesOffHeapTrampolineRegister cfg code \<longleftrightarrow>
     kind code \<noteq> BCH \<and> kind code \<noteq> ASM \<and>
     (ContextRegister (descriptor code) = kOffHeapTrampolineRegister cfg \<or>
      kOffHeapTrampolineRegister cfg \<in> set (RegisterParameters (descriptor code)))"
  by (cases "kind code")
    (simp_all add: BuiltinAliasesOffHeapTrampolineRegister_def aliases_loop_iff)

lemma loop_body_checks:
  "stderr (loop_body cfg i code s) = stderr s @ violations cfg code"
  "saw_unsafe_builtin (loop_body cfg i code s)
     \<longleftrightarrow> saw_unsafe_builtin s \<or> violations cfg code \<noteq> []"
  by (simp_all add: loop_body_def layout_step_def check_aliases_def
      check_isolate_independent_def violations_def Let_def)

lemma first_loop_checks:
  "stderr (first_loop cfg cs i s) = stderr s @ concat (map (violations cfg) cs)"
  "saw_unsafe_builtin (first_loop cfg cs i s)
     \<longleftrightarrow> saw_unsafe_builtin s \<or> (\<exists>c \<in> set cs. violations cfg c \<noteq> [])"
  by (induction cs arbitrary: i s) (auto simp: loop_body_checks)

lemma run_first_loop_checks:
  "stderr (run_first_loop cfg isolate) = concat (map (violations cfg) (builtins isolate))"
  "saw_unsafe_builtin (run_first_loop cfg isolate)
     \<longleftrightarrow> (\<exists>c \<in> set (builtins isolate). violations cfg c \<noteq> [])"
  by (simp_all add: run_first_loop_def first_loop_checks initial_state_def)

text \<open>
  C2 (amended). For a unit of kind \<open>BCH\<close> or \<open>ASM\<close> the check of the trampoline register
  is skipped: \<^verbatim>\<open>BuiltinAliasesOffHeapTrampolineRegister\<close> is false whatever the descriptor,
  and the check changes nothing. The check of isolate-independence is not skipped: the
  lines the loop writes for the unit are that check's, and the lines of a whole run are
  those of its units.
\<close>

theorem safety_checks_skipped_kinds:
  assumes "kind code = BCH \<or> kind code = ASM"
  shows "\<not> BuiltinAliasesOffHeapTrampolineRegister cfg code \<and>
         check_aliases cfg code s = s \<and>
         aliases_msg code \<notin> set (violations cfg code) \<and>
         violations cfg code
           = (if IsIsolateIndependent code then [] else [not_isolate_independent_msg code]) \<and>
         stderr (loop_body cfg i code s) = stderr s @ violations cfg code \<and>
         stderr (run_first_loop cfg isolate)
           = concat (map (violations cfg) (builtins isolate))"
proof -
  from assms have n: "\<not> BuiltinAliasesOffHeapTrampolineRegister cfg code"
    by (auto simp: BuiltinAliasesOffHeapTrampolineRegister_def)
  have ne: "aliases_msg code \<noteq> not_isolate_independent_msg code"
    by (simp add: aliases_msg_def not_isolate_independent_msg_def)
  from n ne show ?thesis
    by (simp add: check_aliases_def violations_def loop_body_checks run_first_loop_checks)
qed

text \<open>
  C2 as stated has both checks skipped for the kinds \<open>BCH\<close> and \<open>ASM\<close>. The bytecode
  handler of \<open>handler_isolate\<close> is not isolate-independent: the first check reports it and
  the build fails.
\<close>

theorem safety_checks_skipped_kinds_counterexample:
  "kind (safety_code 0 ''Handler'' BCH False 7 [7]) = BCH \<and>
   builtins handler_isolate = [safety_code 0 ''Handler'' BCH False 7 [7]] \<and>
   FromIsolate scenario_cfg handler_isolate scenario_new
     = Inl (CHECK_failed [''Handler is not isolate-independent.''] unsafe_builtin_msg)"
  by code_simp

theorem safety_checks_skipped_kinds_witness:
  "kind (safety_code 0 ''Handler'' BCH False 7 [7]) = BCH \<and>
   ContextRegister (descriptor (safety_code 0 ''Handler'' BCH False 7 [7]))
     = kOffHeapTrampolineRegister scenario_cfg \<and>
   \<not> BuiltinAliasesOffHeapTrampolineRegister scenario_cfg
       (safety_code 0 ''Handler'' BCH False 7 [7]) \<and>
   violations scenario_cfg (safety_code 0 ''Handler'' BCH False 7 [7])
     = [''Handler is not isolate-independent.'']"
proof -
  have k: "kind (safety_code 0 ''Handler'' BCH False 7 [7]) = BCH"
    by (simp add: safety_code_def)
  have c: "ContextRegister (descriptor (safety_code 0 ''Handler'' BCH False 7 [7]))
     = kOffHeapTrampolineRegister scenario_cfg"
    by (simp add: safety_code_def scenario_cfg_def)
  have v: "(if IsIsolateIndependent (safety_code 0 ''Handler'' BCH False 7 [7]) then []
            else [not_isolate_independent_msg (safety_code 0 ''Handler'' BCH False 7 [7])])
      = [''Handler is not isolate-independent.'']"
    by code_simp
  from safety_checks_skipped_kinds [OF disjI1 [OF k], of scenario_cfg] k c
  show ?thesis unfolding v by (intro conjI) simp_all
qed

subsection \<open>The hash of the blob\<close>

lemma length_le_bytes [simp]: "length (le_bytes k v) = k"
  by (induction k arbitrary: v) simp_all

lemma length_size_t_bytes [simp]: "length (size_t_bytes h) = kSizetSize"
  by (simp add: size_t_bytes_def)

lemma length_Metadata_bytes [simp]: "length (Metadata_bytes m) = 8"
  by (simp add: Metadata_bytes_def)

lemma length_concat_Metadata_bytes [simp]:
  "length (concat (map Metadata_bytes t)) = 8 * length t"
  by (induction t) simp_all

lemma length_metadata_bytes:
  "length (metadata_bytes d) = 2 * kSizetSize + 8 * length (metadata_table d)"
  by (simp add: metadata_bytes_def)

lemma drop_hash_metadata_bytes:
  "drop EmbeddedBlobHashSize (metadata_bytes d)
     = size_t_bytes (isolate_hash_field d) @ concat (map Metadata_bytes (metadata_table d))"
  by (simp add: metadata_bytes_def EmbeddedBlobHashSize_def)

lemma take_hash_metadata_bytes:
  "take EmbeddedBlobHashSize (drop EmbeddedBlobHashOffset (metadata_bytes d))
     = size_t_bytes (embedded_blob_hash d)"
  by (simp add: metadata_bytes_def EmbeddedBlobHashSize_def EmbeddedBlobHashOffset_def)

lemma CreateEmbeddedBlobHash_hash_field [simp]:
  "CreateEmbeddedBlobHash cfg (d\<lparr>embedded_blob_hash := h\<rparr>) = CreateEmbeddedBlobHash cfg d"
  by (simp add: CreateEmbeddedBlobHash_def drop_hash_metadata_bytes)

subsection \<open>\<^verbatim>\<open>FinalizeEmbeddedCodeTargets\<close> in closed form\<close>

lemma RelocIterator_blob_map:
  "RelocIterator_blob cfg blob code = map (blob_rinfo cfg blob code) (RelocIterator code)"
  by (simp add: RelocIterator_blob_def RelocIterator_def blob_rinfo_def)

lemma blob_rinfo_same_frame:
  "same_frame blob b \<Longrightarrow> blob_rinfo cfg b code = blob_rinfo cfg blob code"
  by (simp add: blob_rinfo_def fun_eq_iff same_frame_accessors(8))

lemma apply_fixups_simps [simp]:
  "apply_fixups cfg blob [] = blob"
  "apply_fixups cfg blob ((rinfo, target) # fixups)
     = apply_fixups cfg (fst (set_target_address cfg rinfo target SKIP_WRITE_BARRIER blob)) fixups"
  by (simp_all add: apply_fixups_def)

lemma apply_fixups_append:
  "apply_fixups cfg blob (xs @ ys) = apply_fixups cfg (apply_fixups cfg blob xs) ys"
  by (simp add: apply_fixups_def)

lemma same_frame_apply_fixups: "same_frame blob (apply_fixups cfg blob fixups)"
proof (induction fixups arbitrary: blob)
  case Nil
  then show ?case by simp
next
  case (Cons f fixups)
  obtain rinfo target where f: "f = (rinfo, target)" by (cases f)
  from same_frame_set_target_address Cons.IH show ?case
    unfolding f apply_fixups_simps by (rule same_frame_trans)
qed

lemma targets_loop_eq:
  assumes "same_frame blob b"
  shows "targets_loop cfg isolate on_heap_it (map (blob_rinfo cfg blob code) on_heap_it) (b, bs)
     = (if list_all (target_ok isolate) on_heap_it
        then Inr (apply_fixups cfg b (map (fixup_of cfg isolate blob code) on_heap_it), bs)
        else Inl (CHECK_failed [] ''Builtins::IsIsolateIndependentBuiltin(target)''))"
  using assms
proof (induction on_heap_it arbitrary: b bs)
  case Nil
  then show ?case by simp
next
  case (Cons r rest)
  let ?target = "GetCodeFromTargetAddress isolate (target_address r)"
  show ?case
  proof (cases "target_ok isolate r")
    case False
    then show ?thesis by (simp add: target_ok_def)
  next
    case True
    let ?st = "set_target_address cfg (blob_rinfo cfg blob code r)
        (InstructionStartOfBuiltin cfg blob (builtin_index (the ?target))) SKIP_WRITE_BARRIER b"
    have start: "InstructionStartOfBuiltin cfg b i = InstructionStartOfBuiltin cfg blob i" for i
      by (rule same_frame_accessors(8) [OF Cons.prems])
    have nb: "snd ?st = []" by (simp add: set_target_address_def)
    have "same_frame blob (fst ?st)"
      using Cons.prems same_frame_set_target_address by (rule same_frame_trans)
    moreover have "fixup_of cfg isolate blob code r
        = (blob_rinfo cfg blob code r,
           InstructionStartOfBuiltin cfg blob (builtin_index (the ?target)))"
      by (simp add: fixup_of_def)
    ultimately show ?thesis
      using Cons.IH [of "fst ?st" bs] True nb
      by (simp add: target_ok_def start split_beta Let_def)
  qed
qed

lemma finalize_loop_direct:
  assumes "direct_code_targets cfg" and "same_frame blob b"
  shows "finalize_loop cfg isolate codes (b, bs)
     = (if list_all (\<lambda>code. list_all (target_ok isolate) (RelocIterator code)) codes
        then Inr (apply_fixups cfg b (concat (map (unit_fixups cfg isolate blob) codes)), bs)
        else Inl (CHECK_failed [] ''Builtins::IsIsolateIndependentBuiltin(target)''))"
  using assms(2)
proof (induction codes arbitrary: b bs)
  case Nil
  then show ?case by simp
next
  case (Cons code rest)
  have it: "RelocIterator_blob cfg b code = map (blob_rinfo cfg blob code) (RelocIterator code)"
    by (simp add: RelocIterator_blob_map blob_rinfo_same_frame [OF Cons.prems])
  let ?b1 = "apply_fixups cfg b (unit_fixups cfg isolate blob code)"
  have "same_frame blob ?b1"
    using Cons.prems same_frame_apply_fixups by (rule same_frame_trans)
  from Cons.IH [OF this, of bs] show ?case
    using assms(1)
    by (simp add: it targets_loop_eq [OF Cons.prems] apply_fixups_append
        unit_fixups_def [symmetric])
qed

lemma finalize_loop_indirect:
  assumes "\<not> direct_code_targets cfg"
  shows "finalize_loop cfg isolate codes st
     = (if list_all (\<lambda>code. RelocIterator code = []) codes then Inr st
        else Inl (CHECK_failed [] ''on_heap_it.done()''))"
  using assms by (induction codes) (simp_all add: RelocIterator_blob_map)

lemma FinalizeEmbeddedCodeTargets_direct:
  "direct_code_targets cfg \<Longrightarrow>
   FinalizeEmbeddedCodeTargets cfg isolate blob
     = (if list_all (\<lambda>code. list_all (target_ok isolate) (RelocIterator code)) (builtins isolate)
        then Inr (apply_fixups cfg blob (all_fixups cfg isolate blob), [])
        else Inl (CHECK_failed [] ''Builtins::IsIsolateIndependentBuiltin(target)''))"
  by (simp add: FinalizeEmbeddedCodeTargets_def finalize_loop_direct [OF _ same_frame_refl]
      all_fixups_def)

lemma FinalizeEmbeddedCodeTargets_indirect:
  "\<not> direct_code_targets cfg \<Longrightarrow>
   FinalizeEmbeddedCodeTargets cfg isolate blob
     = (if list_all (\<lambda>code. RelocIterator code = []) (builtins isolate) then Inr (blob, [])
        else Inl (CHECK_failed [] ''on_heap_it.done()''))"
  by (simp add: FinalizeEmbeddedCodeTargets_def finalize_loop_indirect)

lemma all_fixups_same_frame:
  assumes "same_frame blob b"
  shows "all_fixups cfg isolate b = all_fixups cfg isolate blob"
proof -
  have "fixup_of cfg isolate b code r = fixup_of cfg isolate blob code r" for code r
    by (simp add: fixup_of_def blob_rinfo_same_frame [OF assms] same_frame_accessors(8) [OF assms])
  then have "unit_fixups cfg isolate b = unit_fixups cfg isolate blob"
    by (simp add: unit_fixups_def fun_eq_iff)
  then show ?thesis by (simp add: all_fixups_def)
qed

subsection \<open>Fixing twice\<close>

lemma apply_fixups_code_bytes:
  "apply_fixups cfg b fixups
     = b\<lparr>code_bytes := foldl (\<lambda>buf (dst, src). memcpy buf dst src) (code_bytes b)
                          (map (write_of cfg (m_code b)) fixups)\<rparr>"
proof (induction fixups arbitrary: b)
  case Nil
  then show ?case by simp
next
  case (Cons f fixups)
  obtain rinfo target where f: "f = (rinfo, target)" by (cases f)
  show ?case
    unfolding f apply_fixups_simps
    by (subst Cons.IH) (simp add: set_target_address_def write_of_def)
qed

lemma length_foldl_memcpy [simp]:
  "length (foldl (\<lambda>buf (dst, src). memcpy buf dst src) buf ws) = length buf"
  by (induction ws arbitrary: buf) (simp_all add: split_beta)

lemma nth_memcpy:
  "k < length buf \<Longrightarrow>
   memcpy buf dst src ! k = (if dst \<le> k \<and> k < dst + length src then src ! (k - dst) else buf ! k)"
  by (simp add: memcpy_def)

lemma nth_foldl_memcpy:
  "k < length buf \<Longrightarrow>
   foldl (\<lambda>buf (dst, src). memcpy buf dst src) buf ws ! k
     = (case latest ws k of Some v \<Rightarrow> v | None \<Rightarrow> buf ! k)"
proof (induction ws arbitrary: buf)
  case Nil
  then show ?case by simp
next
  case (Cons w ws)
  obtain dst src where w: "w = (dst, src)" by (cases w)
  from Cons.prems have "k < length (memcpy buf dst src)" by simp
  from Cons.IH [OF this] Cons.prems show ?case
    by (simp add: w nth_memcpy split: option.splits)
qed

lemma foldl_memcpy_twice:
  "foldl (\<lambda>buf (dst, src). memcpy buf dst src)
     (foldl (\<lambda>buf (dst, src). memcpy buf dst src) buf ws) ws
   = foldl (\<lambda>buf (dst, src). memcpy buf dst src) buf ws"
  by (rule nth_equalityI) (simp_all add: nth_foldl_memcpy split: option.splits)

lemma apply_fixups_twice:
  "apply_fixups cfg (apply_fixups cfg b fixups) fixups = apply_fixups cfg b fixups"
proof -
  let ?ws = "map (write_of cfg (m_code b)) fixups"
  let ?b1 = "b\<lparr>code_bytes := foldl (\<lambda>buf (dst, src). memcpy buf dst src) (code_bytes b) ?ws\<rparr>"
  have one: "apply_fixups cfg b fixups = ?b1" by (rule apply_fixups_code_bytes)
  have "apply_fixups cfg ?b1 fixups = ?b1"
    by (subst apply_fixups_code_bytes) (simp add: foldl_memcpy_twice)
  then show ?thesis by (simp only: one)
qed


text \<open>
  C8. When \<^verbatim>\<open>FinalizeEmbeddedCodeTargets\<close> has fixed a blob, running it again on the fixed
  blob, for the same isolate, succeeds and returns the fixed blob unchanged: every field,
  and every byte of the code buffer, is the same. This holds on the architectures with
  direct code targets, where the second run writes again the same bytes to the same
  slots.
\<close>

theorem FinalizeEmbeddedCodeTargets_idempotent:
  assumes "direct_code_targets cfg"
    and "FinalizeEmbeddedCodeTargets cfg isolate blob = Inr (blob', barriers)"
  shows "FinalizeEmbeddedCodeTargets cfg isolate blob' = Inr (blob', [])"
proof -
  let ?ok = "list_all (\<lambda>code. list_all (target_ok isolate) (RelocIterator code))
      (builtins isolate)"
  from assms have ok: ?ok and b': "blob' = apply_fixups cfg blob (all_fixups cfg isolate blob)"
    by (auto simp: FinalizeEmbeddedCodeTargets_direct split: if_splits)
  have "same_frame blob blob'" unfolding b' by (rule same_frame_apply_fixups)
  then have "all_fixups cfg isolate blob' = all_fixups cfg isolate blob"
    by (rule all_fixups_same_frame)
  then have "apply_fixups cfg blob' (all_fixups cfg isolate blob') = blob'"
    by (simp add: b' apply_fixups_twice)
  with ok assms(1) show ?thesis
    by (simp add: FinalizeEmbeddedCodeTargets_direct)
qed


lemma reloc_Finalize:
  "FinalizeEmbeddedCodeTargets scenario_cfg reloc_isolate reloc_blob_copied
     = Inr (reloc_blob_fixed, [])"
  by code_simp

text \<open>The fix-up of the two units of \<open>reloc_isolate\<close>, run again on its result.\<close>

theorem FinalizeEmbeddedCodeTargets_idempotent_witness:
  "direct_code_targets scenario_cfg \<and>
   FinalizeEmbeddedCodeTargets scenario_cfg reloc_isolate reloc_blob_copied
     = Inr (reloc_blob_fixed, []) \<and>
   FinalizeEmbeddedCodeTargets scenario_cfg reloc_isolate reloc_blob_fixed
     = Inr (reloc_blob_fixed, [])"
proof -
  have d: "direct_code_targets scenario_cfg" by (simp add: scenario_cfg_def)
  from FinalizeEmbeddedCodeTargets_idempotent [OF d reloc_Finalize] d reloc_Finalize
  show ?thesis by (intro conjI)
qed


text \<open>
  C5. For every unit the iterator over the blob copy yields as many records as the
  iterator over the unit, of the same kinds, all of them code targets or relative code
  targets (the \<^verbatim>\<open>DCHECK\<close>s of lines 174, 177 and 189 hold). With direct code targets,
  \<^verbatim>\<open>FinalizeEmbeddedCodeTargets\<close> fails at the \<^verbatim>\<open>CHECK\<close> of line 179 unless the target of
  every such record is an isolate-independent builtin; otherwise it returns the blob with,
  for each record in the order of the loops, the slot of the copy (the unit's start in the
  blob plus the record's offset) overwritten with the encoding of the start, in the blob,
  of the record's target builtin, and hands nothing to the write barrier. Without direct
  code targets it returns the blob as it is when no unit has such a record, and fails at
  the \<^verbatim>\<open>CHECK\<close> of line 194 otherwise.
\<close>

theorem FinalizeEmbeddedCodeTargets_fixes:
  "(\<forall>code \<in> set (builtins isolate).
      length (RelocIterator_blob cfg blob code) = length (RelocIterator code) \<and>
      map blob_rmode (RelocIterator_blob cfg blob code) = map rmode (RelocIterator code) \<and>
      (\<forall>r \<in> set (RelocIterator code).
         r \<in> set (relocation_info code) \<and>
         (rmode r = CODE_TARGET \<or> rmode r = RELATIVE_CODE_TARGET))) \<and>
   (\<forall>msg. FinalizeEmbeddedCodeTargets cfg isolate blob \<noteq> Inl (DCHECK_failed msg)) \<and>
   (direct_code_targets cfg \<longrightarrow>
      FinalizeEmbeddedCodeTargets cfg isolate blob =
        (if \<forall>code \<in> set (builtins isolate). \<forall>r \<in> set (RelocIterator code).
              IsIsolateIndependentBuiltin isolate
                (GetCodeFromTargetAddress isolate (target_address r))
         then Inr (apply_fixups cfg blob (all_fixups cfg isolate blob), [])
         else Inl (CHECK_failed [] ''Builtins::IsIsolateIndependentBuiltin(target)''))) \<and>
   (\<not> direct_code_targets cfg \<longrightarrow>
      FinalizeEmbeddedCodeTargets cfg isolate blob =
        (if \<forall>code \<in> set (builtins isolate). RelocIterator code = [] then Inr (blob, [])
         else Inl (CHECK_failed [] ''on_heap_it.done()''))) \<and>
   all_fixups cfg isolate blob =
     concat (map (\<lambda>code.
       map (\<lambda>r. (\<lparr>blob_rmode = rmode r,
                   blob_pc = InstructionStartOfBuiltin cfg blob (builtin_index code)
                             + pc_offset r\<rparr>,
                  InstructionStartOfBuiltin cfg blob
                    (builtin_index (the (GetCodeFromTargetAddress isolate (target_address r))))))
         (RelocIterator code)) (builtins isolate)) \<and>
   (\<forall>b fixups. apply_fixups cfg b fixups =
      foldl (\<lambda>b (rinfo, target).
               b\<lparr>code_bytes := memcpy (code_bytes b) (blob_pc rinfo - m_code b)
                    (encode_target cfg (blob_rmode rinfo) (blob_pc rinfo) target)\<rparr>) b fixups)"
proof -
  have lock: "\<forall>code \<in> set (builtins isolate).
      length (RelocIterator_blob cfg blob code) = length (RelocIterator code) \<and>
      map blob_rmode (RelocIterator_blob cfg blob code) = map rmode (RelocIterator code) \<and>
      (\<forall>r \<in> set (RelocIterator code).
         r \<in> set (relocation_info code) \<and>
         (rmode r = CODE_TARGET \<or> rmode r = RELATIVE_CODE_TARGET))"
    by (auto simp: RelocIterator_blob_map blob_rinfo_def comp_def RelocIterator_def
        kRelocMask_def)
  have ok: "list_all (\<lambda>code. list_all (target_ok isolate) (RelocIterator code)) (builtins isolate)
      \<longleftrightarrow> (\<forall>code \<in> set (builtins isolate). \<forall>r \<in> set (RelocIterator code).
              IsIsolateIndependentBuiltin isolate
                (GetCodeFromTargetAddress isolate (target_address r)))"
    by (simp add: list_all_iff target_ok_def)
  have direct: "direct_code_targets cfg \<longrightarrow>
      FinalizeEmbeddedCodeTargets cfg isolate blob =
        (if \<forall>code \<in> set (builtins isolate). \<forall>r \<in> set (RelocIterator code).
              IsIsolateIndependentBuiltin isolate
                (GetCodeFromTargetAddress isolate (target_address r))
         then Inr (apply_fixups cfg blob (all_fixups cfg isolate blob), [])
         else Inl (CHECK_failed [] ''Builtins::IsIsolateIndependentBuiltin(target)''))"
    using FinalizeEmbeddedCodeTargets_direct [of cfg isolate blob] unfolding ok by blast
  have indirect: "\<not> direct_code_targets cfg \<longrightarrow>
      FinalizeEmbeddedCodeTargets cfg isolate blob =
        (if \<forall>code \<in> set (builtins isolate). RelocIterator code = [] then Inr (blob, [])
         else Inl (CHECK_failed [] ''on_heap_it.done()''))"
    using FinalizeEmbeddedCodeTargets_indirect [of cfg isolate blob]
    by (simp add: list_all_iff)
  have nod: "\<forall>msg. FinalizeEmbeddedCodeTargets cfg isolate blob \<noteq> Inl (DCHECK_failed msg)"
  proof (cases "direct_code_targets cfg")
    case True
    with direct show ?thesis by (auto split: if_splits)
  next
    case False
    with indirect show ?thesis by (auto split: if_splits)
  qed
  have fx: "all_fixups cfg isolate blob =
     concat (map (\<lambda>code.
       map (\<lambda>r. (\<lparr>blob_rmode = rmode r,
                   blob_pc = InstructionStartOfBuiltin cfg blob (builtin_index code)
                             + pc_offset r\<rparr>,
                  InstructionStartOfBuiltin cfg blob
                    (builtin_index (the (GetCodeFromTargetAddress isolate (target_address r))))))
         (RelocIterator code)) (builtins isolate))"
    unfolding all_fixups_def unit_fixups_def fixup_of_def blob_rinfo_def ..
  have ap: "\<forall>b fixups. apply_fixups cfg b fixups =
      foldl (\<lambda>b (rinfo, target).
               b\<lparr>code_bytes := memcpy (code_bytes b) (blob_pc rinfo - m_code b)
                    (encode_target cfg (blob_rmode rinfo) (blob_pc rinfo) target)\<rparr>) b fixups"
    by (simp add: apply_fixups_def set_target_address_def)
  from lock nod direct indirect fx ap show ?thesis by (intro conjI)
qed

text \<open>
  The fix-up of the two units of \<open>reloc_isolate\<close>: the slot of \<open>Caller\<close> at offset 2 gets
  the start of \<open>Callee\<close> in the blob (\<open>64 + 16 = 0x50\<close>), the slot of \<open>Callee\<close> the start
  of \<open>Caller\<close> (\<open>0x40\<close>); the embedded object is left alone.
\<close>

theorem FinalizeEmbeddedCodeTargets_fixes_witness:
  "direct_code_targets scenario_cfg \<and>
   FinalizeEmbeddedCodeTargets scenario_cfg reloc_isolate reloc_blob_copied
     = Inr (apply_fixups scenario_cfg reloc_blob_copied
              (all_fixups scenario_cfg reloc_isolate reloc_blob_copied), []) \<and>
   apply_fixups scenario_cfg reloc_blob_copied
     (all_fixups scenario_cfg reloc_isolate reloc_blob_copied) = reloc_blob_fixed"
proof -
  have d: "direct_code_targets scenario_cfg" by (simp add: scenario_cfg_def)
  have ok: "\<forall>code \<in> set (builtins reloc_isolate). \<forall>r \<in> set (RelocIterator code).
      IsIsolateIndependentBuiltin reloc_isolate
        (GetCodeFromTargetAddress reloc_isolate (target_address r))"
    by code_simp
  from FinalizeEmbeddedCodeTargets_fixes [of reloc_isolate scenario_cfg reloc_blob_copied]
  have "direct_code_targets scenario_cfg \<longrightarrow>
      FinalizeEmbeddedCodeTargets scenario_cfg reloc_isolate reloc_blob_copied =
        (if \<forall>code \<in> set (builtins reloc_isolate). \<forall>r \<in> set (RelocIterator code).
              IsIsolateIndependentBuiltin reloc_isolate
                (GetCodeFromTargetAddress reloc_isolate (target_address r))
         then Inr (apply_fixups scenario_cfg reloc_blob_copied
                     (all_fixups scenario_cfg reloc_isolate reloc_blob_copied), [])
         else Inl (CHECK_failed [] ''Builtins::IsIsolateIndependentBuiltin(target)''))"
    by (elim conjE)
  with d ok have run: "FinalizeEmbeddedCodeTargets scenario_cfg reloc_isolate reloc_blob_copied
     = Inr (apply_fixups scenario_cfg reloc_blob_copied
              (all_fixups scenario_cfg reloc_isolate reloc_blob_copied), [])"
    by simp
  with reloc_Finalize have "apply_fixups scenario_cfg reloc_blob_copied
     (all_fixups scenario_cfg reloc_isolate reloc_blob_copied) = reloc_blob_fixed"
    by simp
  with d run show ?thesis by (intro conjI)
qed

subsection \<open>The page allocator\<close>

lemma not_overlaps_fresh:
  "\<not> list_ex (overlaps p n) P \<Longrightarrow> p \<notin> fst ` set P"
  by (auto simp: list_ex_iff overlaps_def)

lemma map_region_fresh:
  "p \<notin> fst ` set P \<Longrightarrow> map (\<lambda>(q, r). if q = p then (q, f r) else (q, r)) P = P"
  by (induction P) auto

lemma filter_region_fresh:
  "p \<notin> fst ` set P \<Longrightarrow> filter (\<lambda>qr. fst qr \<noteq> p) P = P"
  by (induction P) auto

lemma map_of_region_fresh: "p \<notin> fst ` set P \<Longrightarrow> map_of P p = None"
  by (simp add: map_of_eq_None_iff)

lemma AllocatePages_cases:
  obtains (refused) "AllocatePages platform w hint n alignment access = (None, w)"
      "\<not> grants_allocation platform hint \<or> hint = 0 \<or> n = 0 \<or> alignment = 0 \<or>
       hint mod alignment \<noteq> 0 \<or> list_ex (overlaps hint n) (pages w)"
    | (granted) "AllocatePages platform w hint n alignment access
        = (Some hint, w\<lparr>pages := (hint, \<lparr>region_size = n, region_access = access,
                                        region_bytes = replicate n 0\<rparr>) # pages w\<rparr>)"
      "grants_allocation platform hint" "hint \<noteq> 0" "n \<noteq> 0" "alignment \<noteq> 0"
      "hint mod alignment = 0" "\<not> list_ex (overlaps hint n) (pages w)"
  by (cases "\<not> grants_allocation platform hint \<or> hint = 0 \<or> n = 0 \<or> alignment = 0 \<or>
       hint mod alignment \<noteq> 0 \<or> list_ex (overlaps hint n) (pages w)")
    (simp_all add: AllocatePages_def)


lemma CreateOffHeapInstructionStream_Inr:
  assumes run: "CreateOffHeapInstructionStream cfg platform isolate new w = Inr (out, w')"
  obtains d where "FromIsolate cfg isolate new = Inr d"
    and "out = \<lparr>out_code = code_pages_address platform, out_code_size = m_code_size d,
                 out_metadata = metadata_pages_address platform,
                 out_metadata_size = m_metadata_size d\<rparr>"
    and "w' = w\<lparr>arrays := (arrays w \<union> {m_code d, m_metadata d}) - {m_code d, m_metadata d},
               pages := (metadata_pages_address platform, metadata_region platform d) #
                        (code_pages_address platform, code_region platform d) # pages w\<rparr>"
    and "code_pages_address platform \<notin> fst ` set (pages w)"
    and "metadata_pages_address platform \<notin> fst ` set (pages w)"
    and "\<not> overlaps (metadata_pages_address platform)
             (region_size (metadata_region platform d))
             (code_pages_address platform, code_region platform d)"
    and "grants_allocation platform (code_pages_address platform)"
    and "grants_allocation platform (metadata_pages_address platform)"
    and "grants_protection platform (code_pages_address platform) kReadExecute"
    and "grants_protection platform (metadata_pages_address platform) kRead"
proof -
  let ?page = "AllocatePageSize platform"
  let ?c = "code_pages_address platform"
  let ?m = "metadata_pages_address platform"
  from run obtain d where d: "FromIsolate cfg isolate new = Inr d"
    by (cases "FromIsolate cfg isolate new") (simp_all add: CreateOffHeapInstructionStream_def)
  let ?nc = "unat (RoundUp (m_code_size d) ?page)"
  let ?nm = "unat (RoundUp (m_metadata_size d) ?page)"
  let ?w0 = "w\<lparr>arrays := insert (m_code d) (insert (m_metadata d) (arrays w))\<rparr>"
  have w0: "w\<lparr>arrays := arrays w \<union> {m_code d, m_metadata d}\<rparr> = ?w0" by simp
  let ?rc0 = "\<lparr>region_size = ?nc, region_access = kReadWrite, region_bytes = replicate ?nc 0\<rparr>"
  let ?rm0 = "\<lparr>region_size = ?nm, region_access = kReadWrite, region_bytes = replicate ?nm 0\<rparr>"
  let ?w1 = "?w0\<lparr>pages := (?c, ?rc0) # pages ?w0\<rparr>"
  let ?w2 = "?w1\<lparr>pages := (?m, ?rm0) # pages ?w1\<rparr>"
  have fold1: "AlignedAddress (GetRandomMmapAddr platform (Suc 0)) (unat ?page) = ?m"
    by (simp add: metadata_pages_address_def)
  note fold = code_pages_address_def [symmetric] metadata_pages_address_def [symmetric] fold1
  have r1: "AllocatePages platform ?w0 ?c ?nc (unat ?page) kReadWrite \<noteq> (None, ?w0)"
    using run d by (auto simp: CreateOffHeapInstructionStream_def Let_def fold)
  then have a1: "AllocatePages platform ?w0 ?c ?nc (unat ?page) kReadWrite = (Some ?c, ?w1)"
    and g1: "grants_allocation platform ?c"
    and o1: "\<not> list_ex (overlaps ?c ?nc) (pages w)"
    by (cases rule: AllocatePages_cases [of platform ?w0 ?c ?nc "unat ?page" kReadWrite];
        simp)+
  have r2: "AllocatePages platform ?w1 ?m ?nm (unat ?page) kReadWrite \<noteq> (None, ?w1)"
    using run d a1 by (auto simp: CreateOffHeapInstructionStream_def Let_def fold)
  then have a2: "AllocatePages platform ?w1 ?m ?nm (unat ?page) kReadWrite = (Some ?m, ?w2)"
    and g2: "grants_allocation platform ?m"
    and o2: "\<not> list_ex (overlaps ?m ?nm) (pages ?w1)"
    by (cases rule: AllocatePages_cases [of platform ?w1 ?m ?nm "unat ?page" kReadWrite];
        simp)+
  from o1 have fc: "?c \<notin> fst ` set (pages w)" by (rule not_overlaps_fresh)
  from o2 have om: "\<not> overlaps ?m ?nm (?c, ?rc0)" and o2': "\<not> list_ex (overlaps ?m ?nm) (pages w)"
    by simp_all
  from o2' have fm: "?m \<notin> fst ` set (pages w)" by (rule not_overlaps_fresh)
  from om have ne: "?m \<noteq> ?c" by (auto simp: overlaps_def)
  let ?src_c = "take (unat (m_code_size d)) (code_bytes d)"
  let ?src_m = "take (unat (m_metadata_size d)) (metadata_bytes d)"
  let ?rc1 = "\<lparr>region_size = ?nc, region_access = kReadWrite,
      region_bytes = memcpy (replicate ?nc 0) 0 ?src_c\<rparr>"
  let ?w3 = "?w0\<lparr>pages := (?m, ?rm0) # (?c, ?rc1) # pages w\<rparr>"
  have w3: "memcpy_pages ?w2 ?c ?src_c = ?w3"
    using ne by (simp add: memcpy_pages_def update_region_def map_region_fresh [OF fc])
  let ?w4 = "?w0\<lparr>pages := (?m, ?rm0) # (?c, code_region platform d) # pages w\<rparr>"
  have s3: "SetPermissions platform ?w3 ?c ?nc kReadExecute
      = (if grants_protection platform ?c kReadExecute then Some ?w4 else None)"
    using ne
    by (simp add: SetPermissions_def update_region_def map_region_fresh [OF fc]
        code_region_def)
  let ?rm1 = "\<lparr>region_size = ?nm, region_access = kReadWrite,
      region_bytes = memcpy (replicate ?nm 0) 0 ?src_m\<rparr>"
  let ?w5 = "?w0\<lparr>pages := (?m, ?rm1) # (?c, code_region platform d) # pages w\<rparr>"
  have w5: "memcpy_pages ?w4 ?m ?src_m = ?w5"
    using ne by (simp add: memcpy_pages_def update_region_def map_region_fresh [OF fm])
  let ?w6 = "?w0\<lparr>pages := (?m, metadata_region platform d) #
      (?c, code_region platform d) # pages w\<rparr>"
  have s5: "SetPermissions platform ?w5 ?m ?nm kRead
      = (if grants_protection platform ?m kRead then Some ?w6 else None)"
    using ne
    by (simp add: SetPermissions_def update_region_def map_region_fresh [OF fm]
        metadata_region_def)
  have unfolded: "CreateOffHeapInstructionStream cfg platform isolate new w =
      (if grants_protection platform ?c kReadExecute
       then if grants_protection platform ?m kRead
            then Inr (\<lparr>out_code = ?c, out_code_size = m_code_size d, out_metadata = ?m,
                        out_metadata_size = m_metadata_size d\<rparr>, Dispose d ?w6)
            else Inl (CHECK_failed [] ''SetPermissions(metadata)'')
       else Inl (CHECK_failed [] ''SetPermissions(code)''))"
    unfolding CreateOffHeapInstructionStream_def d sum.case Let_def fold w0 a1 prod.case
      option.case a2 w3 s3
    by (simp add: w5 s5)
  from run unfolded have g3: "grants_protection platform ?c kReadExecute"
    and g4: "grants_protection platform ?m kRead"
    by (auto split: if_splits)
  from run unfolded g3 g4 have out: "out = \<lparr>out_code = ?c, out_code_size = m_code_size d,
      out_metadata = ?m, out_metadata_size = m_metadata_size d\<rparr>"
    and w': "w' = Dispose d ?w6"
    by simp_all
  have "w' = w\<lparr>arrays := (arrays w \<union> {m_code d, m_metadata d}) - {m_code d, m_metadata d},
               pages := (?m, metadata_region platform d) # (?c, code_region platform d) #
                        pages w\<rparr>"
    by (simp add: w' Dispose_def)
  moreover have "\<not> overlaps ?m (region_size (metadata_region platform d))
      (?c, code_region platform d)"
    using om by (simp add: overlaps_def metadata_region_def code_region_def)
  ultimately show ?thesis
    using that [OF d out _ fc fm _ g1 g2 g3 g4] by blast
qed


lemma FreeOffHeapInstructionStream_created:
  assumes ne: "m \<noteq> c" and fc: "c \<notin> fst ` set P" and fm: "m \<notin> fst ` set P"
    and w': "pages w' = (m, metadata_region platform d) # (c, code_region platform d) # P"
  shows "FreeOffHeapInstructionStream platform c (m_code_size d) m (m_metadata_size d) w'
     = (if grants_release platform c
        then if grants_release platform m then Inr (w'\<lparr>pages := P\<rparr>)
             else Inl (CHECK_failed [] ''FreePages(metadata)'')
        else Inl (CHECK_failed [] ''FreePages(code)''))"
  using ne
  by (simp add: FreeOffHeapInstructionStream_def FreePages_def w' Let_def
      filter_region_fresh [OF fc] filter_region_fresh [OF fm] map_of_region_fresh [OF fm]
      code_region_def metadata_region_def)

lemma FreePages_refused: "\<not> grants_release platform p \<Longrightarrow> FreePages platform w p n = None"
  by (simp add: FreePages_def split: option.splits)

lemma round_up_nat:
  fixes x k :: nat
  assumes "0 < k"
  shows "(x + (k - 1)) div k * k < x + k" and "x \<le> (x + (k - 1)) div k * k"
proof -
  have 1: "(x + (k - 1)) div k * k \<le> x + (k - 1)" by simp
  have 2: "x + (k - 1) < k + (x + (k - 1)) div k * k"
    using assms by (rule dividend_less_div_times)
  from 1 assms show "(x + (k - 1)) div k * k < x + k" by linarith
  from 2 assms show "x \<le> (x + (k - 1)) div k * k" by linarith
qed

lemma RoundUp_next_multiple:
  assumes m: "0 < unat m" and fit: "unat x + unat m \<le> 2 ^ 32"
  shows "unat m dvd unat (RoundUp x m)" and "unat x \<le> unat (RoundUp x m)"
    and "unat (RoundUp x m) < unat x + unat m"
proof -
  from m have m0: "m \<noteq> 0" by (auto simp: unat_eq_0)
  have m1: "unat (m - 1) = unat m - 1" by (rule unat_minus_one [OF m0])
  have "unat x + unat (m - 1) < 2 ^ 32" using m fit by (simp add: m1)
  then have add: "unat (x + (m - 1)) = unat x + (unat m - 1)"
    using unat_add_lem [of x "m - 1"] by (simp add: m1)
  let ?q = "(unat x + (unat m - 1)) div unat m"
  have q: "unat ((x + (m - 1)) div m) = ?q" by (simp only: unat_div add)
  note R = round_up_nat [OF m, of "unat x"]
  from R(1) fit have "?q * unat m < 2 ^ 32" by linarith
  then have "unat ((x + (m - 1)) div m) * unat m < 2 ^ LENGTH(32)" by (simp only: q) simp
  then have r: "unat (RoundUp x m) = ?q * unat m"
    using unat_mult_lem [of "(x + (m - 1)) div m" m] by (simp only: RoundUp_def q)
  show "unat m dvd unat (RoundUp x m)" by (simp only: r) simp
  show "unat (RoundUp x m) < unat x + unat m" using R(1) by (simp only: r)
  show "unat x \<le> unat (RoundUp x m)" using R(2) by (simp only: r)
qed

lemma memcpy_prefix:
  "length src \<le> length buf \<Longrightarrow> take (length src) (memcpy buf 0 src) = src"
  by (rule nth_equalityI) (simp_all add: memcpy_def)


lemma scenario_Create:
  "CreateOffHeapInstructionStream scenario_cfg scenario_platform scenario_isolate scenario_new
     scenario_world = Inr (scenario_stream, scenario_world_after)"
  unfolding CreateOffHeapInstructionStream_def scenario_FromIsolate sum.case
  by code_simp

text \<open>
  C9. When \<^verbatim>\<open>CreateOffHeapInstructionStream\<close> returns, the two buffers of the blob that
  \<^verbatim>\<open>FromIsolate\<close> built for the call have been given back (\<^verbatim>\<open>d.Dispose()\<close>, line 104):
  they are not among the live arrays, and no array is live that was not live before the
  call. What the call leaves in the world are the two regions at the addresses of the
  out-parameters, and a region that is large enough for its buffer starts with the bytes
  of the buffer.
\<close>

theorem CreateOffHeapInstructionStream_disposes:
  assumes "CreateOffHeapInstructionStream cfg platform isolate new w = Inr (out, w')"
  shows "\<exists>d. FromIsolate cfg isolate new = Inr d \<and>
           m_code d \<notin> arrays w' \<and> m_metadata d \<notin> arrays w' \<and>
           arrays w' = arrays w - {m_code d, m_metadata d} \<and>
           arrays w' \<subseteq> arrays w \<and>
           pages w' = (out_metadata out, metadata_region platform d) #
                      (out_code out, code_region platform d) # pages w \<and>
           (unat (m_code_size d) \<le> region_size (code_region platform d) \<longrightarrow>
              take (length (code_bytes d)) (region_bytes (code_region platform d))
                = code_bytes d) \<and>
           (length (take (unat (m_metadata_size d)) (metadata_bytes d))
              \<le> region_size (metadata_region platform d) \<longrightarrow>
              take (length (take (unat (m_metadata_size d)) (metadata_bytes d)))
                (region_bytes (metadata_region platform d))
                = take (unat (m_metadata_size d)) (metadata_bytes d))"
proof -
  from assms obtain d where d: "FromIsolate cfg isolate new = Inr d"
    and out: "out = \<lparr>out_code = code_pages_address platform, out_code_size = m_code_size d,
                 out_metadata = metadata_pages_address platform,
                 out_metadata_size = m_metadata_size d\<rparr>"
    and w': "w' = w\<lparr>arrays := (arrays w \<union> {m_code d, m_metadata d})
                               - {m_code d, m_metadata d},
               pages := (metadata_pages_address platform, metadata_region platform d) #
                        (code_pages_address platform, code_region platform d) # pages w\<rparr>"
    by (rule CreateOffHeapInstructionStream_Inr)
  have len: "length (code_bytes d) = unat (m_code_size d)"
    by (rule FromIsolate_Inr(8) [OF d])
  have code: "unat (m_code_size d) \<le> region_size (code_region platform d) \<longrightarrow>
      take (length (code_bytes d)) (region_bytes (code_region platform d)) = code_bytes d"
    using memcpy_prefix [of "code_bytes d"
        "replicate (unat (RoundUp (m_code_size d) (AllocatePageSize platform))) 0"]
    by (simp add: code_region_def len)
  have meta: "length (take (unat (m_metadata_size d)) (metadata_bytes d))
        \<le> region_size (metadata_region platform d) \<longrightarrow>
      take (length (take (unat (m_metadata_size d)) (metadata_bytes d)))
        (region_bytes (metadata_region platform d))
        = take (unat (m_metadata_size d)) (metadata_bytes d)"
    using memcpy_prefix [of "take (unat (m_metadata_size d)) (metadata_bytes d)"
        "replicate (unat (RoundUp (m_metadata_size d) (AllocatePageSize platform))) 0"]
    by (simp add: metadata_region_def)
  have "m_code d \<notin> arrays w' \<and> m_metadata d \<notin> arrays w' \<and>
      arrays w' = arrays w - {m_code d, m_metadata d} \<and> arrays w' \<subseteq> arrays w \<and>
      pages w' = (out_metadata out, metadata_region platform d) #
                 (out_code out, code_region platform d) # pages w"
    by (auto simp: w' out)
  with d code meta show ?thesis by blast
qed

text \<open>
  In the scenario the buffers of the blob, at 64 and 192, are not live after the call;
  the array 7 of before the call is.
\<close>

theorem CreateOffHeapInstructionStream_disposes_witness:
  "CreateOffHeapInstructionStream scenario_cfg scenario_platform scenario_isolate scenario_new
     scenario_world = Inr (scenario_stream, scenario_world_after) \<and>
   FromIsolate scenario_cfg scenario_isolate scenario_new = Inr scenario_blob \<and>
   m_code scenario_blob \<notin> arrays scenario_world_after \<and>
   m_metadata scenario_blob \<notin> arrays scenario_world_after \<and>
   arrays scenario_world_after = {7}"
proof -
  from CreateOffHeapInstructionStream_disposes [OF scenario_Create] scenario_FromIsolate
  have "m_code scenario_blob \<notin> arrays scenario_world_after \<and>
      m_metadata scenario_blob \<notin> arrays scenario_world_after"
    by auto
  moreover have "arrays scenario_world_after = {7}" by (simp add: scenario_world_after_def)
  ultimately show ?thesis using scenario_Create scenario_FromIsolate by (intro conjI) simp_all
qed

subsection \<open>The hash field before it is written\<close>

lemma FromIsolate_copied_blob:
  "FromIsolate cfg isolate new =
     (if saw_unsafe_builtin (run_first_loop cfg isolate)
      then Inl (CHECK_failed (stderr (run_first_loop cfg isolate)) unsafe_builtin_msg)
      else case FinalizeEmbeddedCodeTargets cfg isolate (copied_blob cfg isolate new) of
             Inl e \<Rightarrow> Inl e
           | Inr (d', barriers) \<Rightarrow>
               Inr (d'\<lparr>embedded_blob_hash := CreateEmbeddedBlobHash cfg d'\<rparr>))"
  by (simp add: FromIsolate_def copied_blob_def Let_def)

lemma copied_blob_fresh_hash_field:
  "copied_blob cfg isolate (new\<lparr>fresh_hash_field := h\<rparr>)
     = (copied_blob cfg isolate new)\<lparr>embedded_blob_hash := h\<rparr>"
  by (simp add: copied_blob_def Let_def)

lemma all_fixups_hash_field:
  "all_fixups cfg isolate (b\<lparr>embedded_blob_hash := h\<rparr>) = all_fixups cfg isolate b"
proof -
  have start: "InstructionStartOfBuiltin cfg (b\<lparr>embedded_blob_hash := h\<rparr>) i
      = InstructionStartOfBuiltin cfg b i" for i
    by (simp add: InstructionStartOfBuiltin_def RawCode_def)
  have "fixup_of cfg isolate (b\<lparr>embedded_blob_hash := h\<rparr>) code r
      = fixup_of cfg isolate b code r" for code r
    by (simp add: fixup_of_def blob_rinfo_def start)
  then have "unit_fixups cfg isolate (b\<lparr>embedded_blob_hash := h\<rparr>) = unit_fixups cfg isolate b"
    by (simp add: unit_fixups_def fun_eq_iff)
  then show ?thesis by (simp add: all_fixups_def)
qed

lemma apply_fixups_hash_field:
  "apply_fixups cfg (b\<lparr>embedded_blob_hash := h\<rparr>) fixups
     = (apply_fixups cfg b fixups)\<lparr>embedded_blob_hash := h\<rparr>"
  by (subst (1 2) apply_fixups_code_bytes) simp

lemma FinalizeEmbeddedCodeTargets_hash_field:
  "FinalizeEmbeddedCodeTargets cfg isolate (b\<lparr>embedded_blob_hash := h\<rparr>)
     = (case FinalizeEmbeddedCodeTargets cfg isolate b of
          Inl e \<Rightarrow> Inl e
        | Inr (b', barriers) \<Rightarrow> Inr (b'\<lparr>embedded_blob_hash := h\<rparr>, barriers))"
proof (cases "direct_code_targets cfg")
  case True
  then show ?thesis
    by (simp add: FinalizeEmbeddedCodeTargets_direct all_fixups_hash_field
        apply_fixups_hash_field)
next
  case False
  then show ?thesis by (simp add: FinalizeEmbeddedCodeTargets_indirect)
qed

lemma FromIsolate_fresh_hash_field:
  "FromIsolate cfg isolate (new\<lparr>fresh_hash_field := h\<rparr>) = FromIsolate cfg isolate new"
  by (simp add: FromIsolate_copied_blob copied_blob_fresh_hash_field
      FinalizeEmbeddedCodeTargets_hash_field split: sum.splits)

lemma spec_PadAndAlign_rounds_up:
  assumes "0 < unat alignment" and "unat n + unat alignment \<le> 2 ^ 32"
  shows "unat n \<le> unat (spec_PadAndAlign alignment n)"
    and "unat alignment dvd unat (spec_PadAndAlign alignment n)"
    and "unat (spec_PadAndAlign alignment n) < unat n + unat alignment"
  using RoundUp_next_multiple [OF assms] by (simp_all add: spec_PadAndAlign_def)

text \<open>
  C6. In the blob \<^verbatim>\<open>FromIsolate\<close> returns, the hash field holds the checksum of the blob
  as it is returned: recomputing \<^verbatim>\<open>CreateEmbeddedBlobHash\<close> gives the stored value (the
  \<^verbatim>\<open>DCHECK_EQ\<close>s of lines 289 and 290). The field is the first \<^verbatim>\<open>kSizetSize\<close> bytes of the
  metadata buffer, at offset 0; the checksum does not depend on it; its two payloads are
  all the other bytes of the metadata buffer and all bytes of the code buffer. The blob
  returned is the blob after \<^verbatim>\<open>FinalizeEmbeddedCodeTargets\<close> with the hash field set, so
  the hash is stored last and covers the code as relocated; what the hash field held
  before, in the fresh buffer, has no part in the result. The table has fewer than
  \<open>2^28\<close> entries, so that the size of the metadata buffer fits \<^verbatim>\<open>uint32_t\<close>.
\<close>

theorem FromIsolate_hash:
  assumes built: "FromIsolate cfg isolate new = Inr d"
    and count: "builtin_count isolate < 2 ^ 28"
  shows "EmbeddedBlobHash d = CreateEmbeddedBlobHash cfg d \<and>
         EmbeddedBlobHashOffset = 0 \<and>
         take EmbeddedBlobHashSize (drop EmbeddedBlobHashOffset (metadata_bytes d))
           = size_t_bytes (EmbeddedBlobHash d) \<and>
         (\<forall>h. CreateEmbeddedBlobHash cfg (d\<lparr>embedded_blob_hash := h\<rparr>)
                = CreateEmbeddedBlobHash cfg d) \<and>
         CreateEmbeddedBlobHash cfg d
           = Checksum cfg (drop EmbeddedBlobHashSize (metadata_bytes d)) (code_bytes d) \<and>
         size_t_bytes (EmbeddedBlobHash d) @ drop EmbeddedBlobHashSize (metadata_bytes d)
           = metadata_bytes d \<and>
         (\<exists>d1 barriers.
            FinalizeEmbeddedCodeTargets cfg isolate (copied_blob cfg isolate new)
              = Inr (d1, barriers) \<and>
            d = d1\<lparr>embedded_blob_hash := CreateEmbeddedBlobHash cfg d1\<rparr>) \<and>
         (\<forall>h. FromIsolate cfg isolate (new\<lparr>fresh_hash_field := h\<rparr>) = Inr d)"
proof -
  note F = FromIsolate_Inr [OF built]
  from built F(1) obtain d1 bs
    where fin: "FinalizeEmbeddedCodeTargets cfg isolate (copied_blob cfg isolate new)
        = Inr (d1, bs)"
    and d: "d = d1\<lparr>embedded_blob_hash := CreateEmbeddedBlobHash cfg d1\<rparr>"
    by (auto simp: FromIsolate_copied_blob split: sum.splits)
  have stored: "EmbeddedBlobHash d = CreateEmbeddedBlobHash cfg d"
    by (simp add: d EmbeddedBlobHash_def)
  have n: "length (metadata_table d) = builtin_count isolate"
    by (simp add: F(4) run_first_loop_metadata builtin_count_def)
  have "unat (m_metadata_size d) = 16 + 8 * builtin_count isolate"
    using count
    by (simp add: F(6) MetadataTableOffset_def MetadataTableSize_def IsolateHashOffset_def
        IsolateHashSize_def EmbeddedBlobHashOffset_def EmbeddedBlobHashSize_def kSizetSize_def
        unat_word_ariths unat_of_nat)
  then have whole1: "take (unat (m_metadata_size d) - EmbeddedBlobHashSize)
      (drop EmbeddedBlobHashSize (metadata_bytes d)) = drop EmbeddedBlobHashSize (metadata_bytes d)"
    by (simp add: length_metadata_bytes n EmbeddedBlobHashSize_def kSizetSize_def)
  have whole2: "take (unat (m_code_size d)) (code_bytes d) = code_bytes d"
    by (simp add: F(8))
  have payload: "CreateEmbeddedBlobHash cfg d
      = Checksum cfg (drop EmbeddedBlobHashSize (metadata_bytes d)) (code_bytes d)"
    unfolding CreateEmbeddedBlobHash_def Let_def whole1 whole2 ..
  have split: "size_t_bytes (EmbeddedBlobHash d) @ drop EmbeddedBlobHashSize (metadata_bytes d)
      = metadata_bytes d"
    by (subst drop_hash_metadata_bytes) (simp add: metadata_bytes_def EmbeddedBlobHash_def)
  have last: "\<exists>d1 barriers.
            FinalizeEmbeddedCodeTargets cfg isolate (copied_blob cfg isolate new)
              = Inr (d1, barriers) \<and>
            d = d1\<lparr>embedded_blob_hash := CreateEmbeddedBlobHash cfg d1\<rparr>"
    using fin d by blast
  have fresh: "\<forall>h. FromIsolate cfg isolate (new\<lparr>fresh_hash_field := h\<rparr>) = Inr d"
    by (simp add: FromIsolate_fresh_hash_field built)
  have off: "EmbeddedBlobHashOffset = 0" by (simp add: EmbeddedBlobHashOffset_def)
  have field: "take EmbeddedBlobHashSize (drop EmbeddedBlobHashOffset (metadata_bytes d))
           = size_t_bytes (EmbeddedBlobHash d)"
    by (simp add: take_hash_metadata_bytes EmbeddedBlobHash_def)
  have indep: "\<forall>h. CreateEmbeddedBlobHash cfg (d\<lparr>embedded_blob_hash := h\<rparr>)
                = CreateEmbeddedBlobHash cfg d"
    by simp
  from stored off field indep payload split last fresh show ?thesis by (intro conjI)
qed

text \<open>The hypotheses of \<open>FromIsolate_hash\<close> hold in the scenario.\<close>

theorem FromIsolate_hash_witness:
  "FromIsolate scenario_cfg scenario_isolate scenario_new = Inr scenario_blob \<and>
   EmbeddedBlobHash scenario_blob = CreateEmbeddedBlobHash scenario_cfg scenario_blob \<and>
   EmbeddedBlobHash scenario_blob = 112"
proof -
  have "builtin_count scenario_isolate = 3" by code_simp
  then have c: "builtin_count scenario_isolate < 2 ^ 28" by simp
  have h: "EmbeddedBlobHash scenario_blob = 112"
    by (simp add: EmbeddedBlobHash_def scenario_blob_def)
  from FromIsolate_hash [OF scenario_FromIsolate c] scenario_FromIsolate h
  show ?thesis by (intro conjI) simp_all
qed

subsection \<open>The bytes of the regions\<close>

lemma memcpy_into_zeroes:
  "length src \<le> n \<Longrightarrow> memcpy (replicate n 0) 0 src = src @ replicate (n - length src) 0"
  by (rule nth_equalityI) (auto simp: memcpy_def nth_append)

lemma FromIsolate_length_metadata_bytes:
  assumes built: "FromIsolate cfg isolate new = Inr d"
    and count: "builtin_count isolate < 2 ^ 28"
  shows "length (metadata_bytes d) = unat (m_metadata_size d)"
proof -
  note F = FromIsolate_Inr [OF built]
  have n: "length (metadata_table d) = builtin_count isolate"
    by (simp add: F(4) run_first_loop_metadata builtin_count_def)
  have "unat (m_metadata_size d) = 16 + 8 * builtin_count isolate"
    using count
    by (simp add: F(6) MetadataTableOffset_def MetadataTableSize_def IsolateHashOffset_def
        IsolateHashSize_def EmbeddedBlobHashOffset_def EmbeddedBlobHashSize_def kSizetSize_def
        unat_word_ariths unat_of_nat)
  then show ?thesis
    by (simp add: length_metadata_bytes n EmbeddedBlobHashSize_def kSizetSize_def
        IsolateHashSize_def)
qed

text \<open>
  C7. When \<^verbatim>\<open>CreateOffHeapInstructionStream\<close> returns, it has reserved two regions that do
  not overlap, at the two random addresses rounded down to the page size, of the sizes of
  the two buffers rounded up with \<^verbatim>\<open>RoundUp\<close> to the page size (the next multiple of the
  page size, when that fits \<^verbatim>\<open>uint32_t\<close>); the code region is read+execute and holds
  the bytes of the code buffer, followed by the zeroes of the fresh pages up to the size
  of the region; the metadata region is read-only and holds the bytes of the metadata
  buffer, followed by zeroes likewise (a region holds its buffer when the rounded size
  is not below the size of the buffer, and the metadata buffer has the size the blob
  records when its table has fewer than \<open>2^28\<close> entries); the out-parameters are the two addresses and the sizes of the buffers, not of
  the regions. \<^verbatim>\<open>FreeOffHeapInstructionStream\<close>, given these out-parameters, releases both
  regions (the world has its regions of before the call) when the platform serves the two
  releases. When the platform refuses an allocation or a change of protection,
  \<^verbatim>\<open>CreateOffHeapInstructionStream\<close> does not return (every \<open>error\<close> is an abort); when it
  refuses a release, \<^verbatim>\<open>FreeOffHeapInstructionStream\<close> fails at its \<^verbatim>\<open>CHECK\<close>.
\<close>

theorem OffHeapInstructionStream_lifecycle:
  "(\<forall>out w'.
      CreateOffHeapInstructionStream cfg platform isolate new w = Inr (out, w') \<longrightarrow>
      (\<exists>d. FromIsolate cfg isolate new = Inr d \<and>
           out_code out = code_pages_address platform \<and>
           out_metadata out = metadata_pages_address platform \<and>
           out_code_size out = m_code_size d \<and>
           out_metadata_size out = m_metadata_size d \<and>
           pages w' = (out_metadata out, metadata_region platform d) #
                      (out_code out, code_region platform d) # pages w \<and>
           \<not> overlaps (out_metadata out) (region_size (metadata_region platform d))
                (out_code out, code_region platform d) \<and>
           region_size (code_region platform d)
             = unat (RoundUp (m_code_size d) (AllocatePageSize platform)) \<and>
           region_size (metadata_region platform d)
             = unat (RoundUp (m_metadata_size d) (AllocatePageSize platform)) \<and>
           region_access (code_region platform d) = kReadExecute \<and>
           region_access (metadata_region platform d) = kRead \<and>
           length (code_bytes d) = unat (m_code_size d) \<and>
           (unat (m_code_size d) \<le> region_size (code_region platform d) \<longrightarrow>
              region_bytes (code_region platform d)
                = code_bytes d @
                  replicate (region_size (code_region platform d) - unat (m_code_size d)) 0) \<and>
           (builtin_count isolate < 2 ^ 28 \<and>
            unat (m_metadata_size d) \<le> region_size (metadata_region platform d) \<longrightarrow>
              length (metadata_bytes d) = unat (m_metadata_size d) \<and>
              region_bytes (metadata_region platform d)
                = metadata_bytes d @
                  replicate (region_size (metadata_region platform d)
                               - unat (m_metadata_size d)) 0) \<and>
           (grants_release platform (out_code out) \<and>
            grants_release platform (out_metadata out) \<longrightarrow>
              FreeOffHeapInstructionStream platform (out_code out) (out_code_size out)
                (out_metadata out) (out_metadata_size out) w'
              = Inr (w'\<lparr>pages := pages w\<rparr>)))) \<and>
   code_pages_address platform
     = AlignedAddress (GetRandomMmapAddr platform 0) (unat (AllocatePageSize platform)) \<and>
   metadata_pages_address platform
     = AlignedAddress (GetRandomMmapAddr platform 1) (unat (AllocatePageSize platform)) \<and>
   (\<forall>n. 0 < unat (AllocatePageSize platform) \<and>
        unat n + unat (AllocatePageSize platform) \<le> 2 ^ 32 \<longrightarrow>
        unat (AllocatePageSize platform) dvd unat (RoundUp n (AllocatePageSize platform)) \<and>
        unat n \<le> unat (RoundUp n (AllocatePageSize platform)) \<and>
        unat (RoundUp n (AllocatePageSize platform))
          < unat n + unat (AllocatePageSize platform)) \<and>
   (\<not> grants_allocation platform (code_pages_address platform) \<or>
    \<not> grants_allocation platform (metadata_pages_address platform) \<or>
    \<not> grants_protection platform (code_pages_address platform) kReadExecute \<or>
    \<not> grants_protection platform (metadata_pages_address platform) kRead \<longrightarrow>
      (\<exists>e. CreateOffHeapInstructionStream cfg platform isolate new w = Inl e)) \<and>
   (\<forall>code_ptr code_size metadata_ptr metadata_size.
      \<not> grants_release platform code_ptr \<or> \<not> grants_release platform metadata_ptr \<longrightarrow>
      (\<exists>msg. FreeOffHeapInstructionStream platform code_ptr code_size metadata_ptr
         metadata_size w = Inl (CHECK_failed [] msg)))"
proof -
  let ?c = "code_pages_address platform"
  let ?m = "metadata_pages_address platform"
  have success: "\<forall>out w'.
      CreateOffHeapInstructionStream cfg platform isolate new w = Inr (out, w') \<longrightarrow>
      (\<exists>d. FromIsolate cfg isolate new = Inr d \<and>
           out_code out = ?c \<and> out_metadata out = ?m \<and>
           out_code_size out = m_code_size d \<and>
           out_metadata_size out = m_metadata_size d \<and>
           pages w' = (out_metadata out, metadata_region platform d) #
                      (out_code out, code_region platform d) # pages w \<and>
           \<not> overlaps (out_metadata out) (region_size (metadata_region platform d))
                (out_code out, code_region platform d) \<and>
           region_size (code_region platform d)
             = unat (RoundUp (m_code_size d) (AllocatePageSize platform)) \<and>
           region_size (metadata_region platform d)
             = unat (RoundUp (m_metadata_size d) (AllocatePageSize platform)) \<and>
           region_access (code_region platform d) = kReadExecute \<and>
           region_access (metadata_region platform d) = kRead \<and>
           length (code_bytes d) = unat (m_code_size d) \<and>
           (unat (m_code_size d) \<le> region_size (code_region platform d) \<longrightarrow>
              region_bytes (code_region platform d)
                = code_bytes d @
                  replicate (region_size (code_region platform d) - unat (m_code_size d)) 0) \<and>
           (builtin_count isolate < 2 ^ 28 \<and>
            unat (m_metadata_size d) \<le> region_size (metadata_region platform d) \<longrightarrow>
              length (metadata_bytes d) = unat (m_metadata_size d) \<and>
              region_bytes (metadata_region platform d)
                = metadata_bytes d @
                  replicate (region_size (metadata_region platform d)
                               - unat (m_metadata_size d)) 0) \<and>
           (grants_release platform (out_code out) \<and>
            grants_release platform (out_metadata out) \<longrightarrow>
              FreeOffHeapInstructionStream platform (out_code out) (out_code_size out)
                (out_metadata out) (out_metadata_size out) w'
              = Inr (w'\<lparr>pages := pages w\<rparr>)))"
  proof (intro allI impI)
    fix out w'
    assume run: "CreateOffHeapInstructionStream cfg platform isolate new w = Inr (out, w')"
    then obtain d where d: "FromIsolate cfg isolate new = Inr d"
      and out: "out = \<lparr>out_code = ?c, out_code_size = m_code_size d,
                 out_metadata = ?m, out_metadata_size = m_metadata_size d\<rparr>"
      and w': "w' = w\<lparr>arrays := (arrays w \<union> {m_code d, m_metadata d})
                                 - {m_code d, m_metadata d},
               pages := (?m, metadata_region platform d) #
                        (?c, code_region platform d) # pages w\<rparr>"
      and fc: "?c \<notin> fst ` set (pages w)" and fm: "?m \<notin> fst ` set (pages w)"
      and sep: "\<not> overlaps ?m (region_size (metadata_region platform d))
             (?c, code_region platform d)"
      by (rule CreateOffHeapInstructionStream_Inr)
    from sep have ne: "?m \<noteq> ?c" by (auto simp: overlaps_def)
    have pg: "pages w' = (?m, metadata_region platform d) # (?c, code_region platform d) #
        pages w"
      by (simp add: w')
    note free = FreeOffHeapInstructionStream_created [OF ne fc fm pg]
    have "out_code out = ?c \<and> out_metadata out = ?m \<and>
           out_code_size out = m_code_size d \<and>
           out_metadata_size out = m_metadata_size d \<and>
           pages w' = (out_metadata out, metadata_region platform d) #
                      (out_code out, code_region platform d) # pages w \<and>
           \<not> overlaps (out_metadata out) (region_size (metadata_region platform d))
                (out_code out, code_region platform d) \<and>
           (grants_release platform (out_code out) \<and>
            grants_release platform (out_metadata out) \<longrightarrow>
              FreeOffHeapInstructionStream platform (out_code out) (out_code_size out)
                (out_metadata out) (out_metadata_size out) w'
              = Inr (w'\<lparr>pages := pages w\<rparr>))"
      using sep pg by (simp add: out free)
    moreover have "region_size (code_region platform d)
             = unat (RoundUp (m_code_size d) (AllocatePageSize platform)) \<and>
           region_size (metadata_region platform d)
             = unat (RoundUp (m_metadata_size d) (AllocatePageSize platform)) \<and>
           region_access (code_region platform d) = kReadExecute \<and>
           region_access (metadata_region platform d) = kRead \<and>
           length (code_bytes d) = unat (m_code_size d) \<and>
           (unat (m_code_size d) \<le> region_size (code_region platform d) \<longrightarrow>
              region_bytes (code_region platform d)
                = code_bytes d @
                  replicate (region_size (code_region platform d) - unat (m_code_size d)) 0) \<and>
           (builtin_count isolate < 2 ^ 28 \<and>
            unat (m_metadata_size d) \<le> region_size (metadata_region platform d) \<longrightarrow>
              length (metadata_bytes d) = unat (m_metadata_size d) \<and>
              region_bytes (metadata_region platform d)
                = metadata_bytes d @
                  replicate (region_size (metadata_region platform d)
                               - unat (m_metadata_size d)) 0)"
    proof (intro conjI impI)
      show len: "length (code_bytes d) = unat (m_code_size d)"
        by (rule FromIsolate_Inr(8) [OF d])
      show "region_bytes (code_region platform d)
          = code_bytes d @
            replicate (region_size (code_region platform d) - unat (m_code_size d)) 0"
        if "unat (m_code_size d) \<le> region_size (code_region platform d)"
        using that memcpy_into_zeroes [of "code_bytes d"
            "unat (RoundUp (m_code_size d) (AllocatePageSize platform))"]
        by (simp add: code_region_def len)
      assume m: "builtin_count isolate < 2 ^ 28 \<and>
          unat (m_metadata_size d) \<le> region_size (metadata_region platform d)"
      then show lenm: "length (metadata_bytes d) = unat (m_metadata_size d)"
        using FromIsolate_length_metadata_bytes [OF d] by simp
      show "region_bytes (metadata_region platform d)
          = metadata_bytes d @
            replicate (region_size (metadata_region platform d) - unat (m_metadata_size d)) 0"
        using m memcpy_into_zeroes [of "metadata_bytes d"
            "unat (RoundUp (m_metadata_size d) (AllocatePageSize platform))"]
        by (simp add: metadata_region_def lenm)
    qed (simp_all add: code_region_def metadata_region_def)
    ultimately show "\<exists>d. FromIsolate cfg isolate new = Inr d \<and>
           out_code out = ?c \<and> out_metadata out = ?m \<and>
           out_code_size out = m_code_size d \<and>
           out_metadata_size out = m_metadata_size d \<and>
           pages w' = (out_metadata out, metadata_region platform d) #
                      (out_code out, code_region platform d) # pages w \<and>
           \<not> overlaps (out_metadata out) (region_size (metadata_region platform d))
                (out_code out, code_region platform d) \<and>
           region_size (code_region platform d)
             = unat (RoundUp (m_code_size d) (AllocatePageSize platform)) \<and>
           region_size (metadata_region platform d)
             = unat (RoundUp (m_metadata_size d) (AllocatePageSize platform)) \<and>
           region_access (code_region platform d) = kReadExecute \<and>
           region_access (metadata_region platform d) = kRead \<and>
           length (code_bytes d) = unat (m_code_size d) \<and>
           (unat (m_code_size d) \<le> region_size (code_region platform d) \<longrightarrow>
              region_bytes (code_region platform d)
                = code_bytes d @
                  replicate (region_size (code_region platform d) - unat (m_code_size d)) 0) \<and>
           (builtin_count isolate < 2 ^ 28 \<and>
            unat (m_metadata_size d) \<le> region_size (metadata_region platform d) \<longrightarrow>
              length (metadata_bytes d) = unat (m_metadata_size d) \<and>
              region_bytes (metadata_region platform d)
                = metadata_bytes d @
                  replicate (region_size (metadata_region platform d)
                               - unat (m_metadata_size d)) 0) \<and>
           (grants_release platform (out_code out) \<and>
            grants_release platform (out_metadata out) \<longrightarrow>
              FreeOffHeapInstructionStream platform (out_code out) (out_code_size out)
                (out_metadata out) (out_metadata_size out) w'
              = Inr (w'\<lparr>pages := pages w\<rparr>))"
      using d by blast
  qed
  have ac: "?c = AlignedAddress (GetRandomMmapAddr platform 0) (unat (AllocatePageSize platform))"
    by (simp add: code_pages_address_def)
  have am: "?m = AlignedAddress (GetRandomMmapAddr platform 1) (unat (AllocatePageSize platform))"
    by (simp add: metadata_pages_address_def)
  have round: "\<forall>n. 0 < unat (AllocatePageSize platform) \<and>
        unat n + unat (AllocatePageSize platform) \<le> 2 ^ 32 \<longrightarrow>
        unat (AllocatePageSize platform) dvd unat (RoundUp n (AllocatePageSize platform)) \<and>
        unat n \<le> unat (RoundUp n (AllocatePageSize platform)) \<and>
        unat (RoundUp n (AllocatePageSize platform))
          < unat n + unat (AllocatePageSize platform)"
    using RoundUp_next_multiple by blast
  have fatal: "\<not> grants_allocation platform ?c \<or> \<not> grants_allocation platform ?m \<or>
    \<not> grants_protection platform ?c kReadExecute \<or>
    \<not> grants_protection platform ?m kRead \<longrightarrow>
      (\<exists>e. CreateOffHeapInstructionStream cfg platform isolate new w = Inl e)"
  proof
    assume refused: "\<not> grants_allocation platform ?c \<or> \<not> grants_allocation platform ?m \<or>
      \<not> grants_protection platform ?c kReadExecute \<or> \<not> grants_protection platform ?m kRead"
    show "\<exists>e. CreateOffHeapInstructionStream cfg platform isolate new w = Inl e"
    proof (cases "CreateOffHeapInstructionStream cfg platform isolate new w")
      case (Inr r)
      obtain out w' where "r = (out, w')" by (cases r)
      with Inr have "CreateOffHeapInstructionStream cfg platform isolate new w = Inr (out, w')"
        by simp
      then have "grants_allocation platform ?c \<and> grants_allocation platform ?m \<and>
          grants_protection platform ?c kReadExecute \<and> grants_protection platform ?m kRead"
        by (rule CreateOffHeapInstructionStream_Inr) simp
      with refused show ?thesis by blast
    next
      case (Inl e)
      then show ?thesis by blast
    qed
  qed
  have release: "\<forall>code_ptr code_size metadata_ptr metadata_size.
      \<not> grants_release platform code_ptr \<or> \<not> grants_release platform metadata_ptr \<longrightarrow>
      (\<exists>msg. FreeOffHeapInstructionStream platform code_ptr code_size metadata_ptr
         metadata_size w = Inl (CHECK_failed [] msg))"
    by (auto simp: FreeOffHeapInstructionStream_def Let_def FreePages_refused
        split: option.splits)
  from success ac am round fatal release show ?thesis by (intro conjI)
qed

text \<open>
  The scenario's blob, instantiated and disposed of on \<open>scenario_platform\<close>: the 80 bytes
  of the code buffer are followed by 48 zeroes in a region of 128 bytes, the 40 bytes of
  the metadata buffer by 24 zeroes in a region of 64 bytes.
\<close>

theorem OffHeapInstructionStream_lifecycle_witness:
  "CreateOffHeapInstructionStream scenario_cfg scenario_platform scenario_isolate scenario_new
     scenario_world = Inr (scenario_stream, scenario_world_after) \<and>
   out_code_size scenario_stream = 80 \<and>
   region_size (code_region scenario_platform scenario_blob) = 128 \<and>
   region_bytes (code_region scenario_platform scenario_blob)
     = code_bytes scenario_blob @ replicate 48 0 \<and>
   region_bytes (metadata_region scenario_platform scenario_blob)
     = metadata_bytes scenario_blob @ replicate 24 0 \<and>
   FreeOffHeapInstructionStream scenario_platform (out_code scenario_stream)
     (out_code_size scenario_stream) (out_metadata scenario_stream)
     (out_metadata_size scenario_stream) scenario_world_after
   = Inr (scenario_world_after\<lparr>pages := pages scenario_world\<rparr>)"
proof -
  let ?d = scenario_blob
  from OffHeapInstructionStream_lifecycle
    [of scenario_cfg scenario_platform scenario_isolate scenario_new scenario_world]
  have "\<forall>out w'.
      CreateOffHeapInstructionStream scenario_cfg scenario_platform scenario_isolate
        scenario_new scenario_world = Inr (out, w') \<longrightarrow>
      (\<exists>d. FromIsolate scenario_cfg scenario_isolate scenario_new = Inr d \<and>
           (unat (m_code_size d) \<le> region_size (code_region scenario_platform d) \<longrightarrow>
              region_bytes (code_region scenario_platform d)
                = code_bytes d @
                  replicate (region_size (code_region scenario_platform d)
                               - unat (m_code_size d)) 0) \<and>
           (builtin_count scenario_isolate < 2 ^ 28 \<and>
            unat (m_metadata_size d) \<le> region_size (metadata_region scenario_platform d) \<longrightarrow>
              length (metadata_bytes d) = unat (m_metadata_size d) \<and>
              region_bytes (metadata_region scenario_platform d)
                = metadata_bytes d @
                  replicate (region_size (metadata_region scenario_platform d)
                               - unat (m_metadata_size d)) 0) \<and>
           (grants_release scenario_platform (out_code out) \<and>
            grants_release scenario_platform (out_metadata out) \<longrightarrow>
              FreeOffHeapInstructionStream scenario_platform (out_code out) (out_code_size out)
                (out_metadata out) (out_metadata_size out) w'
              = Inr (w'\<lparr>pages := pages scenario_world\<rparr>)))"
    by blast
  with scenario_Create scenario_FromIsolate
  have code: "unat (m_code_size ?d) \<le> region_size (code_region scenario_platform ?d) \<longrightarrow>
        region_bytes (code_region scenario_platform ?d)
          = code_bytes ?d @
            replicate (region_size (code_region scenario_platform ?d)
                         - unat (m_code_size ?d)) 0"
    and meta: "builtin_count scenario_isolate < 2 ^ 28 \<and>
        unat (m_metadata_size ?d) \<le> region_size (metadata_region scenario_platform ?d) \<longrightarrow>
        region_bytes (metadata_region scenario_platform ?d)
          = metadata_bytes ?d @
            replicate (region_size (metadata_region scenario_platform ?d)
                         - unat (m_metadata_size ?d)) 0"
    and free: "grants_release scenario_platform (out_code scenario_stream) \<and>
      grants_release scenario_platform (out_metadata scenario_stream) \<longrightarrow>
      FreeOffHeapInstructionStream scenario_platform (out_code scenario_stream)
        (out_code_size scenario_stream) (out_metadata scenario_stream)
        (out_metadata_size scenario_stream) scenario_world_after
      = Inr (scenario_world_after\<lparr>pages := pages scenario_world\<rparr>)"
    by auto
  have g: "grants_release scenario_platform p" for p
    by (simp add: scenario_platform_def)
  have sz: "out_code_size scenario_stream = 80" by (simp add: scenario_stream_def)
  have rc: "region_size (code_region scenario_platform ?d) = 128" by code_simp
  have rm: "region_size (metadata_region scenario_platform ?d) = 64" by code_simp
  have nc: "unat (m_code_size ?d) = 80" by (simp add: scenario_blob_def)
  have nm: "unat (m_metadata_size ?d) = 40" by (simp add: scenario_blob_def)
  have "builtin_count scenario_isolate = 3" by code_simp
  then have c: "builtin_count scenario_isolate < 2 ^ 28" by simp
  from code have code': "region_bytes (code_region scenario_platform ?d)
      = code_bytes ?d @ replicate 48 0"
    by (simp add: rc nc)
  from meta c have meta': "region_bytes (metadata_region scenario_platform ?d)
      = metadata_bytes ?d @ replicate 24 0"
    by (simp add: rm nm)
  from free g have free': "FreeOffHeapInstructionStream scenario_platform
        (out_code scenario_stream) (out_code_size scenario_stream)
        (out_metadata scenario_stream) (out_metadata_size scenario_stream)
        scenario_world_after
      = Inr (scenario_world_after\<lparr>pages := pages scenario_world\<rparr>)"
    by simp
  from scenario_Create sz rc code' meta' free' show ?thesis by (intro conjI)
qed

subsection \<open>The safety gate\<close>

lemma violations_closed_form:
  "violations cfg unit =
     (if \<not> IsIsolateIndependent unit
      then [builtin_name unit @ '' is not isolate-independent.''] else []) @
     (if kind unit \<noteq> BCH \<and> kind unit \<noteq> ASM \<and>
         (ContextRegister (descriptor unit) = kOffHeapTrampolineRegister cfg \<or>
          kOffHeapTrampolineRegister cfg \<in> set (RegisterParameters (descriptor unit)))
      then [builtin_name unit @ '' aliases the off-heap trampoline register.''] else [])"
  by (simp add: violations_def BuiltinAliasesOffHeapTrampolineRegister_iff
      not_isolate_independent_msg_def aliases_msg_def)

text \<open>
  C1 (amended). A unit fails the checks of the first loop of \<^verbatim>\<open>FromIsolate\<close> when it is
  not isolate-independent, or when its kind is neither \<open>BCH\<close> nor \<open>ASM\<close> and its descriptor
  has the trampoline register as its context register or as a register parameter
  (\<^verbatim>\<open>BuiltinAliasesOffHeapTrampolineRegister\<close> answers \<^verbatim>\<open>false\<close> for the kinds \<open>BCH\<close> and \<open>ASM\<close>
  before it reads the descriptor, lines 133 to 136). When a unit of the isolate fails,
  \<^verbatim>\<open>FromIsolate\<close> returns no blob: it stops at the \<^verbatim>\<open>CHECK_WITH_MSG\<close> after the loop, and
  before that it has written to \<^verbatim>\<open>stderr\<close> the lines of all violations of all units, in the
  order of the units, each with the name of its unit. When no unit fails, and so also
  when units of kind \<open>BCH\<close> or \<open>ASM\<close> have the register in their descriptors, nothing is
  written, the check passes and \<^verbatim>\<open>FromIsolate\<close> goes on to copy and to fix up the code.
\<close>

theorem FromIsolate_unsafe_builtin:
  "(\<forall>code \<in> set (builtins isolate).
      \<not> IsIsolateIndependent code \<or>
      kind code \<noteq> BCH \<and> kind code \<noteq> ASM \<and>
      (ContextRegister (descriptor code) = kOffHeapTrampolineRegister cfg \<or>
       kOffHeapTrampolineRegister cfg \<in> set (RegisterParameters (descriptor code))) \<longrightarrow>
      FromIsolate cfg isolate new
        = Inl (CHECK_failed (concat (map (violations cfg) (builtins isolate)))
                 unsafe_builtin_msg) \<and>
      (\<forall>d. FromIsolate cfg isolate new \<noteq> Inr d) \<and>
      set (violations cfg code) \<subseteq> set (concat (map (violations cfg) (builtins isolate))) \<and>
      violations cfg code \<noteq> []) \<and>
   (\<forall>unit. violations cfg unit =
      (if \<not> IsIsolateIndependent unit
       then [builtin_name unit @ '' is not isolate-independent.''] else []) @
      (if kind unit \<noteq> BCH \<and> kind unit \<noteq> ASM \<and>
          (ContextRegister (descriptor unit) = kOffHeapTrampolineRegister cfg \<or>
           kOffHeapTrampolineRegister cfg \<in> set (RegisterParameters (descriptor unit)))
       then [builtin_name unit @ '' aliases the off-heap trampoline register.'']
       else [])) \<and>
   stderr (run_first_loop cfg isolate) = concat (map (violations cfg) (builtins isolate)) \<and>
   ((\<forall>code \<in> set (builtins isolate).
       IsIsolateIndependent code \<and>
       (kind code = BCH \<or> kind code = ASM \<or>
        ContextRegister (descriptor code) \<noteq> kOffHeapTrampolineRegister cfg \<and>
        kOffHeapTrampolineRegister cfg \<notin> set (RegisterParameters (descriptor code)))) \<longrightarrow>
      stderr (run_first_loop cfg isolate) = [] \<and>
      \<not> saw_unsafe_builtin (run_first_loop cfg isolate) \<and>
      FromIsolate cfg isolate new
        = (case FinalizeEmbeddedCodeTargets cfg isolate (copied_blob cfg isolate new) of
             Inl e \<Rightarrow> Inl e
           | Inr (d', barriers) \<Rightarrow>
               Inr (d'\<lparr>embedded_blob_hash := CreateEmbeddedBlobHash cfg d'\<rparr>)))"
proof (intro conjI ballI impI allI)
  fix code
  assume m: "code \<in> set (builtins isolate)"
    and bad: "\<not> IsIsolateIndependent code \<or>
      kind code \<noteq> BCH \<and> kind code \<noteq> ASM \<and>
      (ContextRegister (descriptor code) = kOffHeapTrampolineRegister cfg \<or>
       kOffHeapTrampolineRegister cfg \<in> set (RegisterParameters (descriptor code)))"
  from bad show v: "violations cfg code \<noteq> []"
    by (auto simp: violations_def BuiltinAliasesOffHeapTrampolineRegister_iff)
  with m have "saw_unsafe_builtin (run_first_loop cfg isolate)"
    by (auto simp: run_first_loop_checks)
  then show fail: "FromIsolate cfg isolate new
      = Inl (CHECK_failed (concat (map (violations cfg) (builtins isolate))) unsafe_builtin_msg)"
    by (simp add: FromIsolate_def run_first_loop_checks(1))
  fix d
  from fail show "FromIsolate cfg isolate new \<noteq> Inr d" by simp
next
  fix code
  assume "code \<in> set (builtins isolate)"
  then show "set (violations cfg code)
      \<subseteq> set (concat (map (violations cfg) (builtins isolate)))"
    by auto
next
  fix unit
  show "violations cfg unit =
      (if \<not> IsIsolateIndependent unit
       then [builtin_name unit @ '' is not isolate-independent.''] else []) @
      (if kind unit \<noteq> BCH \<and> kind unit \<noteq> ASM \<and>
          (ContextRegister (descriptor unit) = kOffHeapTrampolineRegister cfg \<or>
           kOffHeapTrampolineRegister cfg \<in> set (RegisterParameters (descriptor unit)))
       then [builtin_name unit @ '' aliases the off-heap trampoline register.'']
       else [])"
    by (rule violations_closed_form)
next
  show "stderr (run_first_loop cfg isolate)
      = concat (map (violations cfg) (builtins isolate))"
    by (rule run_first_loop_checks(1))
next
  assume ok: "\<forall>code \<in> set (builtins isolate).
       IsIsolateIndependent code \<and>
       (kind code = BCH \<or> kind code = ASM \<or>
        ContextRegister (descriptor code) \<noteq> kOffHeapTrampolineRegister cfg \<and>
        kOffHeapTrampolineRegister cfg \<notin> set (RegisterParameters (descriptor code)))"
  then have none: "\<forall>code \<in> set (builtins isolate). violations cfg code = []"
    by (auto simp: violations_def BuiltinAliasesOffHeapTrampolineRegister_iff)
  then show "stderr (run_first_loop cfg isolate) = []"
    by (simp add: run_first_loop_checks(1))
  from none show safe: "\<not> saw_unsafe_builtin (run_first_loop cfg isolate)"
    by (simp add: run_first_loop_checks(2))
  then show "FromIsolate cfg isolate new
        = (case FinalizeEmbeddedCodeTargets cfg isolate (copied_blob cfg isolate new) of
             Inl e \<Rightarrow> Inl e
           | Inr (d', barriers) \<Rightarrow>
               Inr (d'\<lparr>embedded_blob_hash := CreateEmbeddedBlobHash cfg d'\<rparr>))"
    by (simp add: FromIsolate_copied_blob)
qed

text \<open>
  In \<open>safety_isolate\<close> the units \<open>Dependent\<close> and \<open>Aliasing\<close> fail one check each: both
  lines are written before the build fails.
\<close>

theorem FromIsolate_unsafe_builtin_witness:
  "safety_code 2 ''Aliasing'' TFS True 1 [2, 7] \<in> set (builtins safety_isolate) \<and>
   kind (safety_code 2 ''Aliasing'' TFS True 1 [2, 7]) = TFS \<and>
   kOffHeapTrampolineRegister scenario_cfg
     \<in> set (RegisterParameters (descriptor (safety_code 2 ''Aliasing'' TFS True 1 [2, 7]))) \<and>
   FromIsolate scenario_cfg safety_isolate scenario_new
     = Inl (CHECK_failed [''Dependent is not isolate-independent.'',
                          ''Aliasing aliases the off-heap trampoline register.'']
              unsafe_builtin_msg)"
proof -
  let ?u = "safety_code 2 ''Aliasing'' TFS True 1 [2, 7]"
  have m: "?u \<in> set (builtins safety_isolate)"
    by (simp add: safety_isolate_def)
  have k: "kind ?u = TFS" by (simp add: safety_code_def)
  have r: "kOffHeapTrampolineRegister scenario_cfg \<in> set (RegisterParameters (descriptor ?u))"
    by (simp add: safety_code_def scenario_cfg_def)
  have v: "concat (map (violations scenario_cfg) (builtins safety_isolate))
      = [''Dependent is not isolate-independent.'',
         ''Aliasing aliases the off-heap trampoline register.'']"
    by code_simp
  from FromIsolate_unsafe_builtin
    [where isolate = safety_isolate and cfg = scenario_cfg and new = scenario_new]
  have "\<forall>code \<in> set (builtins safety_isolate).
      \<not> IsIsolateIndependent code \<or>
      kind code \<noteq> BCH \<and> kind code \<noteq> ASM \<and>
      (ContextRegister (descriptor code) = kOffHeapTrampolineRegister scenario_cfg \<or>
       kOffHeapTrampolineRegister scenario_cfg \<in> set (RegisterParameters (descriptor code))) \<longrightarrow>
      FromIsolate scenario_cfg safety_isolate scenario_new
        = Inl (CHECK_failed (concat (map (violations scenario_cfg) (builtins safety_isolate)))
                 unsafe_builtin_msg)"
    by blast
  from bspec [OF this m] k r
  have "FromIsolate scenario_cfg safety_isolate scenario_new
        = Inl (CHECK_failed (concat (map (violations scenario_cfg) (builtins safety_isolate)))
                 unsafe_builtin_msg)"
    by simp
  with m k r show ?thesis unfolding v by (intro conjI)
qed

text \<open>
  The claim as the specification words it, at \<open>trampoline_isolate\<close>: the descriptor of the
  bytecode handler has the trampoline register as its context register and as a
  parameter, that of the \<open>ASM\<close> unit as a parameter, and \<^verbatim>\<open>FromIsolate\<close> returns a blob,
  with nothing written to \<^verbatim>\<open>stderr\<close>.
\<close>

theorem FromIsolate_unsafe_builtin_counterexample:
  "safety_code 0 ''Handler'' BCH True 7 [7] \<in> set (builtins trampoline_isolate) \<and>
   ContextRegister (descriptor (safety_code 0 ''Handler'' BCH True 7 [7]))
     = kOffHeapTrampolineRegister scenario_cfg \<and>
   kOffHeapTrampolineRegister scenario_cfg
     \<in> set (RegisterParameters (descriptor (safety_code 0 ''Handler'' BCH True 7 [7]))) \<and>
   safety_code 1 ''Adaptor'' ASM True 1 [2, 7] \<in> set (builtins trampoline_isolate) \<and>
   kOffHeapTrampolineRegister scenario_cfg
     \<in> set (RegisterParameters (descriptor (safety_code 1 ''Adaptor'' ASM True 1 [2, 7]))) \<and>
   stderr (run_first_loop scenario_cfg trampoline_isolate) = [] \<and>
   FromIsolate scenario_cfg trampoline_isolate scenario_new = Inr trampoline_blob"
proof -
  have 1: "safety_code 0 ''Handler'' BCH True 7 [7] \<in> set (builtins trampoline_isolate)"
    and 2: "safety_code 1 ''Adaptor'' ASM True 1 [2, 7] \<in> set (builtins trampoline_isolate)"
    by (simp_all add: trampoline_isolate_def)
  have 3: "ContextRegister (descriptor (safety_code 0 ''Handler'' BCH True 7 [7]))
       = kOffHeapTrampolineRegister scenario_cfg"
    and 4: "kOffHeapTrampolineRegister scenario_cfg
       \<in> set (RegisterParameters (descriptor (safety_code 0 ''Handler'' BCH True 7 [7])))"
    and 5: "kOffHeapTrampolineRegister scenario_cfg
       \<in> set (RegisterParameters (descriptor (safety_code 1 ''Adaptor'' ASM True 1 [2, 7])))"
    by (simp_all add: safety_code_def scenario_cfg_def)
  have 6: "stderr (run_first_loop scenario_cfg trampoline_isolate) = []" by code_simp
  have 7: "FromIsolate scenario_cfg trampoline_isolate scenario_new = Inr trampoline_blob"
    by code_simp
  from 1 3 4 2 5 6 7 show ?thesis by (intro conjI)
qed

end
